theory Spec2Isabelle
  imports Complex_Main
begin

section \<open>JavaScript strings\<close>

text \<open>
  The service is the ITURHFProp REST wrapper: it serialises a prediction request into the
  engine's key/value input file, runs the engine as a process, parses the report the
  engine writes and maps the result onto amateur bands.

  Strings are lists of characters. The engine's files are ASCII text, so one character
  is one byte here. \<open>String.prototype.trim\<close> and the regular expression class \<open>\s\<close>
  strip the ASCII white space characters; the Unicode spaces beyond ASCII are outside
  this model.
\<close>

definition newline :: char where
  "newline = CHR 0x0A"

definition isWhiteSpace :: "char \<Rightarrow> bool" where
  "isWhiteSpace c \<longleftrightarrow>
     c = CHR '' '' \<or> c = CHR 0x09 \<or> c = CHR 0x0A \<or> c = CHR 0x0B \<or> c = CHR 0x0C \<or> c = CHR 0x0D"

definition trimStart :: "string \<Rightarrow> string" where
  "trimStart s = dropWhile isWhiteSpace s"

definition trim :: "string \<Rightarrow> string" where
  "trim s = rev (dropWhile isWhiteSpace (rev (dropWhile isWhiteSpace s)))"

text \<open>\<open>s.startsWith(p)\<close>\<close>

fun startsWith :: "string \<Rightarrow> string \<Rightarrow> bool" where
  "startsWith s [] = True"
| "startsWith [] (p # ps) = False"
| "startsWith (c # cs) (p # ps) = (c = p \<and> startsWith cs ps)"

text \<open>\<open>s.includes(sub)\<close>\<close>

fun str_includes :: "string \<Rightarrow> string \<Rightarrow> bool" where
  "str_includes [] sub = (sub = [])"
| "str_includes (c # cs) sub = (startsWith (c # cs) sub \<or> str_includes cs sub)"

text \<open>
  \<open>s.split(sep)\<close> for a separator of one character: the pieces between the separators,
  always at least one piece.
\<close>

fun str_split :: "char \<Rightarrow> string \<Rightarrow> string list" where
  "str_split sep [] = [[]]"
| "str_split sep (c # cs) =
     (if c = sep then [] # str_split sep cs
      else (case str_split sep cs of
              [] \<Rightarrow> [[c]]
            | piece # pieces \<Rightarrow> (c # piece) # pieces))"

text \<open>\<open>xs.join(sep)\<close>\<close>

fun str_join :: "string \<Rightarrow> string list \<Rightarrow> string" where
  "str_join sep [] = []"
| "str_join sep [x] = x"
| "str_join sep (x # y # ys) = x @ sep @ str_join sep (y # ys)"

definition isDigit :: "char \<Rightarrow> bool" where
  "isDigit c \<longleftrightarrow> c \<in> set ''0123456789''"

definition digitVal :: "char \<Rightarrow> nat" where
  "digitVal c = of_char c - 48"

text \<open>The value of a run of decimal digits, most significant first.\<close>

definition digitsVal :: "string \<Rightarrow> nat" where
  "digitsVal ds = foldl (\<lambda>n c. 10 * n + digitVal c) 0 ds"

section \<open>JavaScript numbers\<close>

text \<open>
  A Number is NaN, one of the two infinities, or a finite value. The finite values are
  kept as exact reals: rounding to binary64 is not modelled, and there is one zero.
  Numbers that \<open>parseInt\<close> produces are integers or NaN; they keep a type of their own.
\<close>

datatype jsnum = NaN | PInf | NInf | Fin real

datatype jsint = INaN | JInt int

fun ofInt :: "jsint \<Rightarrow> jsnum" where
  "ofInt INaN = NaN"
| "ofInt (JInt n) = Fin (of_int n)"

fun isNaN :: "jsnum \<Rightarrow> bool" where
  "isNaN NaN = True"
| "isNaN _ = False"

fun isFiniteNum :: "jsnum \<Rightarrow> bool" where
  "isFiniteNum (Fin x) = True"
| "isFiniteNum _ = False"

text \<open>\<open>a < b\<close>; every comparison with NaN is false.\<close>

fun js_lt :: "jsnum \<Rightarrow> jsnum \<Rightarrow> bool" where
  "js_lt NaN b = False"
| "js_lt a NaN = False"
| "js_lt (Fin x) (Fin y) = (x < y)"
| "js_lt PInf b = False"
| "js_lt a NInf = False"
| "js_lt NInf b = True"
| "js_lt a PInf = True"

definition js_gt :: "jsnum \<Rightarrow> jsnum \<Rightarrow> bool" where
  "js_gt a b = js_lt b a"

text \<open>\<open>a >= b\<close>\<close>

definition js_ge :: "jsnum \<Rightarrow> jsnum \<Rightarrow> bool" where
  "js_ge a b \<longleftrightarrow> \<not> isNaN a \<and> \<not> isNaN b \<and> \<not> js_lt a b"

fun js_neg :: "jsnum \<Rightarrow> jsnum" where
  "js_neg NaN = NaN"
| "js_neg PInf = NInf"
| "js_neg NInf = PInf"
| "js_neg (Fin x) = Fin (- x)"

text \<open>\<open>a - b\<close>\<close>

fun js_sub :: "jsnum \<Rightarrow> jsnum \<Rightarrow> jsnum" where
  "js_sub NaN b = NaN"
| "js_sub a NaN = NaN"
| "js_sub (Fin x) (Fin y) = Fin (x - y)"
| "js_sub PInf PInf = NaN"
| "js_sub NInf NInf = NaN"
| "js_sub PInf b = PInf"
| "js_sub NInf b = NInf"
| "js_sub a PInf = NInf"
| "js_sub a NInf = PInf"

text \<open>\<open>Math.abs\<close>\<close>

fun js_abs :: "jsnum \<Rightarrow> jsnum" where
  "js_abs NaN = NaN"
| "js_abs PInf = PInf"
| "js_abs NInf = PInf"
| "js_abs (Fin x) = Fin \<bar>x\<bar>"

text \<open>\<open>a * b\<close>\<close>

fun js_mul :: "jsnum \<Rightarrow> jsnum \<Rightarrow> jsnum" where
  "js_mul NaN b = NaN"
| "js_mul a NaN = NaN"
| "js_mul (Fin x) (Fin y) = Fin (x * y)"
| "js_mul (Fin x) b = (if x = 0 then NaN else if 0 < x then b else js_neg b)"
| "js_mul a (Fin y) = (if y = 0 then NaN else if 0 < y then a else js_neg a)"
| "js_mul PInf b = b"
| "js_mul NInf b = js_neg b"

text \<open>\<open>a / b\<close>; the zero of the model is the positive zero.\<close>

fun js_div :: "jsnum \<Rightarrow> jsnum \<Rightarrow> jsnum" where
  "js_div NaN b = NaN"
| "js_div a NaN = NaN"
| "js_div (Fin x) (Fin y) =
     (if y \<noteq> 0 then Fin (x / y)
      else if x = 0 then NaN else if 0 < x then PInf else NInf)"
| "js_div (Fin x) b = Fin 0"
| "js_div a (Fin y) = (if 0 \<le> y then a else js_neg a)"
| "js_div a b = NaN"

text \<open>\<open>Math.log10\<close>\<close>

fun log10 :: "jsnum \<Rightarrow> jsnum" where
  "log10 NaN = NaN"
| "log10 PInf = PInf"
| "log10 NInf = NaN"
| "log10 (Fin x) = (if x < 0 then NaN else if x = 0 then NInf else Fin (log 10 x))"

subsection \<open>Numbers to text\<close>

definition digitChar :: "nat \<Rightarrow> char" where
  "digitChar d = ''0123456789'' ! d"

text \<open>The decimal digits of a natural number, without leading zeros.\<close>

fun natDigits :: "nat \<Rightarrow> string" where
  "natDigits n = (if n < 10 then [digitChar n] else natDigits (n div 10) @ [digitChar (n mod 10)])"

declare natDigits.simps [simp del]

text \<open>
  \<open>x.toFixed(d)\<close>: the sign is split off, the magnitude is scaled by \<open>10\<^sup>d\<close> and rounded to
  the nearest integer, the larger one on a tie, and the digits are padded with zeros to at
  least \<open>d + 1\<close> places. From \<open>10\<^sup>2\<^sup>1\<close> on JavaScript switches to exponent notation, which is
  outside this model.
\<close>

definition fixedDigits :: "nat \<Rightarrow> real \<Rightarrow> string" where
  "fixedDigits d x =
     (let n = nat \<lfloor>x * 10 ^ d + 1 / 2\<rfloor>;
          m = natDigits n;
          padded = replicate (Suc d - length m) (CHR ''0'') @ m;
          k = length padded - d
      in if d = 0 then padded else take k padded @ ''.'' @ drop k padded)"

fun toFixed :: "jsnum \<Rightarrow> nat \<Rightarrow> string" where
  "toFixed NaN d = ''NaN''"
| "toFixed PInf d = ''Infinity''"
| "toFixed NInf d = ''-Infinity''"
| "toFixed (Fin x) d = (if x < 0 then ''-'' @ fixedDigits d (- x) else fixedDigits d x)"

text \<open>
  The text of an integer in a template literal. JavaScript prints an integer below
  \<open>10\<^sup>2\<^sup>1\<close> in magnitude with all its digits; larger ones, which get exponent notation,
  are outside this model.
\<close>

fun intToString :: "jsint \<Rightarrow> string" where
  "intToString INaN = ''NaN''"
| "intToString (JInt n) = (if n < 0 then ''-'' @ natDigits (nat (- n)) else natDigits (nat n))"

subsection \<open>Text to numbers\<close>

text \<open>
  \<open>parseFloat\<close>: leading white space is skipped, then the longest prefix that is a decimal
  literal is read: a sign, then \<open>Infinity\<close>, or digits with an optional fraction and an
  optional exponent. No such prefix gives NaN.
\<close>

definition pow10 :: "int \<Rightarrow> real" where
  "pow10 e = (if 0 \<le> e then 10 ^ nat e else 1 / 10 ^ nat (- e))"

definition exponentPart :: "string \<Rightarrow> int" where
  "exponentPart s =
     (case s of
        [] \<Rightarrow> 0
      | c # r \<Rightarrow>
          if c = CHR ''e'' \<or> c = CHR ''E'' then
            (case r of
               [] \<Rightarrow> 0
             | g # r' \<Rightarrow>
                 if g = CHR ''-'' then - int (digitsVal (takeWhile isDigit r'))
                 else if g = CHR ''+'' then int (digitsVal (takeWhile isDigit r'))
                 else int (digitsVal (takeWhile isDigit r)))
          else 0)"

definition unsignedLiteral :: "string \<Rightarrow> jsnum" where
  "unsignedLiteral s =
     (if startsWith s ''Infinity'' then PInf
      else
        let ip = takeWhile isDigit s;
            r1 = dropWhile isDigit s;
            hasDot = startsWith r1 ''.'';
            fp = (if hasDot then takeWhile isDigit (tl r1) else []);
            r2 = (if hasDot then dropWhile isDigit (tl r1) else r1)
        in if ip = [] \<and> fp = [] then NaN
           else Fin (real (digitsVal (ip @ fp)) / 10 ^ length fp * pow10 (exponentPart r2)))"

definition parseFloat :: "string \<Rightarrow> jsnum" where
  "parseFloat str =
     (let s = trimStart str in
      case s of
        [] \<Rightarrow> NaN
      | c # r \<Rightarrow>
          if c = CHR ''-'' then js_neg (unsignedLiteral r)
          else if c = CHR ''+'' then unsignedLiteral r
          else unsignedLiteral s)"

section \<open>The file system and the environment\<close>

text \<open>
  An exception is a value: a function that can throw returns \<open>js_error + 'a\<close>, and \<open>Inl\<close>
  is the exception leaving the function.
\<close>

datatype js_error = Error string

fun message :: "js_error \<Rightarrow> string" where
  "message (Error m) = m"

text \<open>
  The world is what a call or the engine can change: the regular files with their
  contents, whether the scratch directory exists, the clock behind \<open>Date.now()\<close>, the
  number of random tokens drawn so far, the files that exist but cannot be read, the
  files that exist but cannot be examined with \<open>stat\<close>, and what listing \<open>/tmp\<close> gives:
  the names in it, or the exception.
\<close>

record world =
  files :: "string \<rightharpoonup> string"
  temp_dir :: bool
  clock :: int
  draws :: nat
  read_fault :: "string set"
  stat_fault :: "string set"
  tmp_listing :: "js_error + string list"

text \<open>What \<open>execSync\<close> throws when the process fails or is killed by the timeout.\<close>

record exec_error =
  exitStatus :: "int option"
  stdout :: "string option"
  stderr :: "string option"

text \<open>
  The environment is fixed during a call: the two configured paths, the random tokens
  that \<open>crypto.randomBytes(8).toString('hex')\<close> yields in turn, the paths on which
  \<open>mkdirSync\<close>, \<open>writeFileSync\<close> and \<open>unlinkSync\<close> fail, and the engine. The engine is
  a black box: given the command line and the world it returns its standard output or
  the error of \<open>execSync\<close>, and the world it leaves behind.
\<close>

record env =
  ITURHFPROP_PATH :: string
  ITURHFPROP_DATA :: string
  randomHex :: "nat \<Rightarrow> string"
  mkdir_fault :: "string set"
  write_fault :: "string set"
  unlink_fault :: "string set"
  execSync :: "string \<Rightarrow> world \<Rightarrow> (exec_error + string) \<times> world"

definition quoted :: "string \<Rightarrow> string" where
  "quoted p = [CHR 0x27] @ p @ [CHR 0x27]"

definition TEMP_DIR :: string where
  "TEMP_DIR = ''/tmp/iturhfprop''"

text \<open>
  Every path but the scratch directory is a regular file or absent. \<open>existsSync\<close> never
  throws. Reading a file throws when it does not exist and when it cannot be read;
  \<open>statSync\<close>, which gives the size, throws likewise. The only directory that is listed is
  \<open>/tmp\<close>.
\<close>

definition existsSync :: "world \<Rightarrow> string \<Rightarrow> bool" where
  "existsSync w p = (if p = TEMP_DIR then temp_dir w else files w p \<noteq> None)"

definition readFileSync :: "world \<Rightarrow> string \<Rightarrow> js_error + string" where
  "readFileSync w p =
     (case files w p of
        None \<Rightarrow> Inl (Error (''ENOENT: no such file or directory, open '' @ quoted p))
      | Some content \<Rightarrow>
          if p \<in> read_fault w then Inl (Error (''EACCES: permission denied, open '' @ quoted p))
          else Inr content)"

definition statSync :: "world \<Rightarrow> string \<Rightarrow> js_error + nat" where
  "statSync w p =
     (case files w p of
        None \<Rightarrow> Inl (Error (''ENOENT: no such file or directory, stat '' @ quoted p))
      | Some content \<Rightarrow>
          if p \<in> stat_fault w then Inl (Error (''EACCES: permission denied, stat '' @ quoted p))
          else Inr (length content))"

definition readdirSync :: "world \<Rightarrow> string \<Rightarrow> js_error + string list" where
  "readdirSync w p =
     (if p = ''/tmp'' then tmp_listing w
      else Inl (Error (''ENOENT: no such file or directory, scandir '' @ quoted p)))"

definition writeFileSync :: "env \<Rightarrow> world \<Rightarrow> string \<Rightarrow> string \<Rightarrow> js_error + world" where
  "writeFileSync e w p content =
     (if p \<in> write_fault e then Inl (Error (''EACCES: permission denied, open '' @ quoted p))
      else Inr (w\<lparr>files := (files w)(p \<mapsto> content)\<rparr>))"

definition unlinkSync :: "env \<Rightarrow> world \<Rightarrow> string \<Rightarrow> js_error + world" where
  "unlinkSync e w p =
     (if files w p = None then Inl (Error (''ENOENT: no such file or directory, unlink '' @ quoted p))
      else if p \<in> unlink_fault e then Inl (Error (''EPERM: operation not permitted, unlink '' @ quoted p))
      else Inr (w\<lparr>files := (files w)(p := None)\<rparr>))"

definition mkdirSync :: "env \<Rightarrow> world \<Rightarrow> string \<Rightarrow> js_error + world" where
  "mkdirSync e w p =
     (if p \<in> mkdir_fault e then Inl (Error (''EACCES: permission denied, mkdir '' @ quoted p))
      else Inr (if p = TEMP_DIR then w\<lparr>temp_dir := True\<rparr> else w))"

section \<open>The output parser\<close>

record freq_result =
  freq :: jsnum
  sdbw :: jsnum
  snr :: jsnum
  reliability :: jsnum

record parse_result =
  frequencies :: "freq_result list"
  raw :: "string option"
  muf :: "jsnum option"
  error :: "string option"

definition isHeader :: "string \<Rightarrow> bool" where
  "isHeader trimmed \<longleftrightarrow>
     str_includes trimmed ''Calculated Parameters'' \<and> \<not> str_includes trimmed ''End''"

definition isBoundary :: "string \<Rightarrow> bool" where
  "isBoundary trimmed \<longleftrightarrow>
     str_includes trimmed ''End Calculated'' \<or> str_includes trimmed ''*****''"

text \<open>A data line: month, hour, frequency, received power, SNR, BCR.\<close>

definition parseRow :: "string \<Rightarrow> freq_result option" where
  "parseRow trimmed =
     (let parts = map trim (str_split (CHR '','') trimmed) in
      if 6 \<le> length parts then
        let f = parseFloat (parts ! 2);
            pr = parseFloat (parts ! 3);
            sn = parseFloat (parts ! 4);
            bcr = parseFloat (parts ! 5)
        in if \<not> isNaN f \<and> js_gt f (Fin 0)
           then Some \<lparr>freq = f, sdbw = pr, snr = sn, reliability = bcr\<rparr>
           else None
      else None)"

text \<open>
  One turn of the loop over the lines. The state is \<open>inDataSection\<close> and the rows pushed so
  far; \<open>None\<close> is the \<open>break\<close>.
\<close>

definition scanLine :: "bool \<times> freq_result list \<Rightarrow> string \<Rightarrow> (bool \<times> freq_result list) option" where
  "scanLine st line =
     (let inDataSection = fst st;
          rows = snd st;
          trimmed = trim line
      in if isHeader trimmed then Some (True, rows)
         else if isBoundary trimmed \<and> inDataSection \<and> rows \<noteq> [] then None
         else if inDataSection \<and> trimmed \<noteq> [] \<and> \<not> startsWith trimmed ''*''
                 \<and> \<not> startsWith trimmed ''-''
         then (case parseRow trimmed of
                 Some r \<Rightarrow> Some (inDataSection, rows @ [r])
               | None \<Rightarrow> Some (inDataSection, rows))
         else Some (inDataSection, rows))"

fun scanLines :: "bool \<times> freq_result list \<Rightarrow> string list \<Rightarrow> freq_result list" where
  "scanLines st [] = snd st"
| "scanLines st (line # rest) =
     (case scanLine st line of
        None \<Rightarrow> snd st
      | Some st' \<Rightarrow> scanLines st' rest)"

subsection \<open>The MUF pattern\<close>

text \<open>
  \<open>/(?:BMUF|MUF|Operational MUF)\s*[:=]?\s*([\d.]+)/i\<close>. The classes \<open>\s\<close>, \<open>[:=]\<close> and
  \<open>[\d.]\<close> are disjoint, so the greedy match of the part behind the keyword is the only
  one; giving characters back never helps. The match is the leftmost one, and the result
  is the captured group.
\<close>

definition toUpperCase :: "char \<Rightarrow> char" where
  "toUpperCase c =
     (case map_of (zip ''abcdefghijklmnopqrstuvwxyz'' ''ABCDEFGHIJKLMNOPQRSTUVWXYZ'') c of
        None \<Rightarrow> c
      | Some u \<Rightarrow> u)"

text \<open>
  The keyword at the start of the text, ignoring case: what follows it. The keywords are
  kept in upper case, which is what the comparison maps both sides to.
\<close>

fun matchKeyword :: "string \<Rightarrow> string \<Rightarrow> string option" where
  "matchKeyword [] s = Some s"
| "matchKeyword (k # ks) [] = None"
| "matchKeyword (k # ks) (c # cs) = (if toUpperCase c = k then matchKeyword ks cs else None)"

definition matchValue :: "string \<Rightarrow> string option" where
  "matchValue s =
     (let r1 = dropWhile isWhiteSpace s;
          r2 = (case r1 of [] \<Rightarrow> r1 | c # cs \<Rightarrow> if c = CHR '':'' \<or> c = CHR ''='' then cs else r1);
          r3 = dropWhile isWhiteSpace r2;
          g = takeWhile (\<lambda>c. isDigit c \<or> c = CHR ''.'') r3
      in if g = [] then None else Some g)"

fun matchAlternatives :: "string list \<Rightarrow> string \<Rightarrow> string option" where
  "matchAlternatives [] s = None"
| "matchAlternatives (kw # kws) s =
     (case Option.bind (matchKeyword kw s) matchValue of
        Some g \<Rightarrow> Some g
      | None \<Rightarrow> matchAlternatives kws s)"

fun mufMatch :: "string \<Rightarrow> string option" where
  "mufMatch [] = matchAlternatives [''BMUF'', ''MUF'', ''OPERATIONAL MUF''] []"
| "mufMatch (c # cs) =
     (case matchAlternatives [''BMUF'', ''MUF'', ''OPERATIONAL MUF''] (c # cs) of
        Some g \<Rightarrow> Some g
      | None \<Rightarrow> mufMatch cs)"

subsection \<open>parseOutputFile\<close>

text \<open>The body of the \<open>try\<close>: only reading the file can throw.\<close>

definition parseOutputFile_try :: "world \<Rightarrow> string \<Rightarrow> js_error + parse_result" where
  "parseOutputFile_try w outputPath =
     (case readFileSync w outputPath of
        Inl err \<Rightarrow> Inl err
      | Inr output \<Rightarrow>
          Inr \<lparr>frequencies = scanLines (False, []) (str_split newline output),
               raw = Some (take 3000 output),
               muf = map_option parseFloat (mufMatch output),
               error = None\<rparr>)"

definition parseOutputFile :: "world \<Rightarrow> string \<Rightarrow> js_error + parse_result" where
  "parseOutputFile w outputPath =
     (case parseOutputFile_try w outputPath of
        Inr results \<Rightarrow> Inr results
      | Inl err \<Rightarrow> Inr \<lparr>frequencies = [], raw = None, muf = None, error = Some (message err)\<rparr>)"

subsection \<open>Well-formed reports\<close>

text \<open>
  The words of the specification about a data row: its fields are the comma-separated
  pieces of the trimmed line, each trimmed; the record of a row takes the fields 2 to 5.
  A data row is a non-empty line that is neither a separator nor a section boundary and
  has at least six fields. The parser accepts a frequency that is not NaN and is
  greater than zero.
\<close>

definition rowFields :: "string \<Rightarrow> string list" where
  "rowFields line = map trim (str_split (CHR '','') (trim line))"

definition rowRecord :: "string \<Rightarrow> freq_result" where
  "rowRecord line =
     \<lparr>freq = parseFloat (rowFields line ! 2), sdbw = parseFloat (rowFields line ! 3),
      snr = parseFloat (rowFields line ! 4), reliability = parseFloat (rowFields line ! 5)\<rparr>"

definition dataRow :: "string \<Rightarrow> bool" where
  "dataRow line \<longleftrightarrow>
     trim line \<noteq> [] \<and> \<not> startsWith (trim line) ''*'' \<and> \<not> startsWith (trim line) ''-''
     \<and> \<not> isHeader (trim line) \<and> \<not> isBoundary (trim line) \<and> 6 \<le> length (rowFields line)"

definition acceptedFreq :: "jsnum \<Rightarrow> bool" where
  "acceptedFreq f \<longleftrightarrow> \<not> isNaN f \<and> js_gt f (Fin 0)"

text \<open>The frequencies of a parse, the empty list when the parser throws.\<close>

definition parsedFrequencies :: "js_error + parse_result \<Rightarrow> freq_result list" where
  "parsedFrequencies r = (case r of Inl err \<Rightarrow> [] | Inr res \<Rightarrow> frequencies res)"

subsection \<open>Sample reports\<close>

definition reportPath :: string where
  "reportPath = ''/tmp/iturhfprop/output_0000000000000000.txt''"

definition sampleLines :: "string list" where
  "sampleLines =
     [''Calculated Parameters'',
      ''02, 05, 7.100, -100.50, 20.50, 75.00'',
      ''02, 05, 14.100, -99.50, 12.50, 69.99'',
      ''02, 05, 28.100, -130.00, -5.00, 0.00'',
      ''End Calculated Parameters'']"

definition infinityLines :: "string list" where
  "infinityLines =
     [''Calculated Parameters'',
      ''02, 05, Infinity, -100.50, 20.50, 75.00'',
      ''02, 05, 14.100, -99.50, 12.50, 69.99'',
      ''02, 05, 28.100, -130.00, -5.00, 0.00'',
      ''End Calculated Parameters'']"

definition worldWith :: "string \<Rightarrow> string \<Rightarrow> world" where
  "worldWith p content =
     \<lparr>files = [p \<mapsto> content], temp_dir = True, clock = 0, draws = 0,
      read_fault = {}, stat_fault = {}, tmp_listing = Inr []\<rparr>"

section \<open>The input serializer\<close>

text \<open>HF band frequencies in MHz, in the order the object literal lists them.\<close>

definition HF_BANDS :: "(string \<times> jsnum) list" where
  "HF_BANDS =
     [(''160m'', Fin 2.0), (''80m'', Fin 3.5), (''60m'', Fin 5.3), (''40m'', Fin 7.1),
      (''30m'', Fin 10.1), (''20m'', Fin 14.1), (''17m'', Fin 18.1), (''15m'', Fin 21.1),
      (''12m'', Fin 24.9), (''11m'', Fin 27.0), (''10m'', Fin 28.1)]"

text \<open>
  The parameter object. The coordinates come from \<open>parseFloat\<close>; year, month, hour, sunspot
  number and power come from \<open>parseInt\<close> or a loop counter. A field that a caller may leave
  out is an option, and \<open>None\<close> takes the default of the destructuring. The list of probe
  frequencies is the field \<open>frequencies\<close> of the source; it is named \<open>probes\<close> here, as the
  parsed result has a field \<open>frequencies\<close> too.
\<close>

record params =
  txLat :: jsnum
  txLon :: jsnum
  rxLat :: jsnum
  rxLon :: jsnum
  year :: jsint
  month :: jsint
  hour :: jsint
  ssn :: "jsint option"
  txPower :: "jsint option"
  txGain :: "jsnum option"
  rxGain :: "jsnum option"
  probes :: "jsnum list option"
  manMadeNoise :: "string option"
  requiredReliability :: "jsint option"
  requiredSNR :: "jsint option"

definition orDefault :: "'a option \<Rightarrow> 'a \<Rightarrow> 'a" where
  "orDefault v d = (case v of None \<Rightarrow> d | Some x \<Rightarrow> x)"

text \<open>\<open>isNaN(hour) ? 12 : (hour === 0 ? 24 : hour)\<close>\<close>

definition engineHour :: "jsint \<Rightarrow> jsint" where
  "engineHour h = (if h = INaN then JInt 12 else if h = JInt 0 then JInt 24 else h)"

text \<open>\<open>(10 * Math.log10(txPower / 1000)).toFixed(1)\<close>\<close>

definition txpowerText :: "jsint \<Rightarrow> string" where
  "txpowerText watts = toFixed (js_mul (Fin 10) (log10 (js_div (ofInt watts) (Fin 1000)))) 1"

text \<open>
  The lines of the template, each of which the template ends with a line feed. The four
  strings \<open>txLatStr\<close>, \<open>txLonStr\<close>, \<open>rxLatStr\<close> and \<open>rxLonStr\<close> that the function computes
  first are never used and are left out.
\<close>

definition inputLines :: "string \<Rightarrow> params \<Rightarrow> string list" where
  \<open>inputLines dataPath p =
     (let freqList = str_join '', '' (map (\<lambda>f. toFixed f 3) (orDefault (probes p) (map snd HF_BANDS)))
      in [''PathName "OpenHamClock"'',
          ''PathTXName "TX"'',
          ''Path.L_tx.lat '' @ toFixed (txLat p) 4,
          ''Path.L_tx.lng '' @ toFixed (txLon p) 4,
          ''TXAntFilePath "ISOTROPIC"'',
          ''TXGOS 0.0'',
          ''PathRXName "RX"'',
          ''Path.L_rx.lat '' @ toFixed (rxLat p) 4,
          ''Path.L_rx.lng '' @ toFixed (rxLon p) 4,
          ''RXAntFilePath "ISOTROPIC"'',
          ''RXGOS 0.0'',
          ''AntennaOrientation "TX2RX"'',
          ''Path.year '' @ intToString (year p),
          ''Path.month '' @ intToString (month p),
          ''Path.hour '' @ intToString (engineHour (hour p)),
          ''Path.SSN '' @ intToString (orDefault (ssn p) (JInt 100)),
          ''Path.frequency '' @ freqList,
          ''Path.txpower '' @ txpowerText (orDefault (txPower p) (JInt 100)),
          ''Path.BW 3000'',
          ''Path.SNRr '' @ intToString (orDefault (requiredSNR p) (JInt 15)),
          ''Path.SNRXXp '' @ intToString (orDefault (requiredReliability p) (JInt 90)),
          ''Path.ManMadeNoise "'' @ orDefault (manMadeNoise p) ''RESIDENTIAL'' @ ''"'',
          ''Path.Modulation ANALOG'',
          ''Path.SorL SHORTPATH'',
          ''LL.lat '' @ toFixed (rxLat p) 4,
          ''LL.lng '' @ toFixed (rxLon p) 4,
          ''LR.lat '' @ toFixed (rxLat p) 4,
          ''LR.lng '' @ toFixed (rxLon p) 4,
          ''UL.lat '' @ toFixed (rxLat p) 4,
          ''UL.lng '' @ toFixed (rxLon p) 4,
          ''UR.lat '' @ toFixed (rxLat p) 4,
          ''UR.lng '' @ toFixed (rxLon p) 4,
          ''DataFilePath "'' @ dataPath @ ''/Data/"'',
          ''RptFilePath "/tmp/"'',
          ''RptFileFormat "RPT_PR | RPT_SNR | RPT_BCR"''])\<close>

definition generateInputFile :: "string \<Rightarrow> params \<Rightarrow> string" where
  "generateInputFile dataPath p = concat (map (\<lambda>l. l @ [newline]) (inputLines dataPath p))"

section \<open>Running the engine\<close>

text \<open>
  What \<open>runPrediction\<close> adds to the parsed report. The copy of the parameters it returns
  has the seven fields named in the source.
\<close>

record params_echo =
  echo_txLat :: jsnum
  echo_txLon :: jsnum
  echo_rxLat :: jsnum
  echo_rxLon :: jsnum
  echo_hour :: jsint
  echo_month :: jsint
  echo_ssn :: "jsint option"

record prediction_result = parse_result +
  elapsed :: int
  execStdout :: string
  execStderr :: string
  inputContent :: string
  echo :: params_echo

definition inputPathOf :: "string \<Rightarrow> string" where
  "inputPathOf ident = TEMP_DIR @ ''/input_'' @ ident @ ''.txt''"

definition outputPathOf :: "string \<Rightarrow> string" where
  "outputPathOf ident = TEMP_DIR @ ''/output_'' @ ident @ ''.txt''"

text \<open>
  The block between the engine and the parser. It only logs: the size and the head of the
  output file when the file exists, and otherwise the report files found in \<open>/tmp\<close>. It
  changes nothing, but its three calls into the file system are inside no \<open>catch\<close>, so an
  exception of any of them leaves \<open>runPrediction\<close>.
\<close>

definition logOutputFile :: "world \<Rightarrow> string \<Rightarrow> js_error + unit" where
  "logOutputFile w outputPath =
     (if existsSync w outputPath then
        (case readFileSync w outputPath of
           Inl err \<Rightarrow> Inl err
         | Inr rawOutput \<Rightarrow>
             (case statSync w outputPath of
                Inl err \<Rightarrow> Inl err
              | Inr stats \<Rightarrow> Inr ()))
      else
        (case readdirSync w ''/tmp'' of
           Inl err \<Rightarrow> Inl err
         | Inr names \<Rightarrow>
             (let tmpFiles = filter (\<lambda>f. startsWith f ''RPT'' \<or> startsWith f ''PDD'') names
              in Inr ())))"

text \<open>The body of the outer \<open>try\<close>.\<close>

definition runPrediction_try ::
    "env \<Rightarrow> world \<Rightarrow> string \<Rightarrow> string \<Rightarrow> params \<Rightarrow> (js_error + prediction_result) \<times> world" where
  "runPrediction_try e w inputPath outputPath p =
     (let content = generateInputFile (ITURHFPROP_DATA e) p in
      case writeFileSync e w inputPath content of
        Inl err \<Rightarrow> (Inl err, w)
      | Inr w1 \<Rightarrow>
          (let startTime = clock w1;
              cmd = ITURHFPROP_PATH e @ '' '' @ inputPath @ '' '' @ outputPath;
              ran = execSync e cmd w1;
              w2 = snd ran;
              out = (case fst ran of
                       Inr so \<Rightarrow> so
                     | Inl execError \<Rightarrow> orDefault (stdout execError) []);
              err = (case fst ran of
                       Inr so \<Rightarrow> []
                     | Inl execError \<Rightarrow> orDefault (stderr execError) []);
              took = clock w2 - startTime
           in (case logOutputFile w2 outputPath of
                 Inl ex \<Rightarrow> (Inl ex, w2)
               | Inr u \<Rightarrow>
                 (case parseOutputFile w2 outputPath of
                    Inl ex \<Rightarrow> (Inl ex, w2)
                  | Inr results \<Rightarrow>
                      (Inr \<lparr>frequencies = frequencies results, raw = raw results,
                            muf = muf results, error = error results,
                            elapsed = took, execStdout = out, execStderr = err,
                            inputContent = content,
                            echo = \<lparr>echo_txLat = txLat p, echo_txLon = txLon p,
                                    echo_rxLat = rxLat p, echo_rxLon = rxLon p,
                                    echo_hour = hour p, echo_month = month p,
                                    echo_ssn = ssn p\<rparr>\<rparr>, w2)))))"

text \<open>The \<open>finally\<close> block: an exception of the cleanup is caught and ignored.\<close>

definition cleanup :: "env \<Rightarrow> world \<Rightarrow> string \<Rightarrow> string \<Rightarrow> world" where
  "cleanup e w inputPath outputPath =
     (case (if existsSync w inputPath then unlinkSync e w inputPath else Inr w) of
        Inl ex \<Rightarrow> w
      | Inr w1 \<Rightarrow>
          (case (if existsSync w1 outputPath then unlinkSync e w1 outputPath else Inr w1) of
             Inl ex \<Rightarrow> w1
           | Inr w2 \<Rightarrow> w2))"

definition runPrediction :: "env \<Rightarrow> world \<Rightarrow> params \<Rightarrow> (js_error + prediction_result) \<times> world" where
  "runPrediction e w p =
     (let ident = randomHex e (draws w);
          w0 = w\<lparr>draws := Suc (draws w)\<rparr>;
          inputPath = inputPathOf ident;
          outputPath = outputPathOf ident
      in case (if \<not> existsSync w0 TEMP_DIR then mkdirSync e w0 TEMP_DIR else Inr w0) of
           Inl ex \<Rightarrow> (Inl ex, w0)
         | Inr w1 \<Rightarrow>
             (let r = runPrediction_try e w1 inputPath outputPath p
              in (fst r, cleanup e (snd r) inputPath outputPath)))"

section \<open>The endpoints\<close>

subsection \<open>Query parameters\<close>

text \<open>
  \<open>parseInt\<close> with no radix: leading white space and a sign are skipped, a prefix \<open>0x\<close>
  selects base 16, and the longest run of digits of the base is read; no digit gives NaN.
\<close>

definition isHexDigit :: "char \<Rightarrow> bool" where
  "isHexDigit c \<longleftrightarrow> c \<in> set ''0123456789abcdefABCDEF''"

definition hexDigitVal :: "char \<Rightarrow> nat" where
  "hexDigitVal c =
     (case map_of (zip ''0123456789abcdefABCDEF''
                       [0, 1, 2, 3, 4, 5, 6, 7, 8, 9, 10, 11, 12, 13, 14, 15, 10, 11, 12, 13, 14, 15]) c of
        None \<Rightarrow> 0
      | Some v \<Rightarrow> v)"

definition hexVal :: "string \<Rightarrow> nat" where
  "hexVal ds = foldl (\<lambda>n c. 16 * n + hexDigitVal c) 0 ds"

definition parseInt :: "string \<Rightarrow> jsint" where
  "parseInt str =
     (let s = trimStart str;
          negative = startsWith s ''-'';
          s1 = (if startsWith s ''-'' \<or> startsWith s ''+'' then tl s else s);
          hex = (startsWith s1 ''0x'' \<or> startsWith s1 ''0X'');
          ds = (if hex then takeWhile isHexDigit (drop 2 s1) else takeWhile isDigit s1);
          n = int (if hex then hexVal ds else digitsVal ds)
      in if ds = [] then INaN else JInt (if negative then - n else n))"

text \<open>\<open>a || b\<close> on numbers: zero and NaN are falsy.\<close>

definition orInt :: "jsint \<Rightarrow> jsint \<Rightarrow> jsint" where
  "orInt a b = (if a = INaN \<or> a = JInt 0 then b else a)"

text \<open>
  The query of a request maps a parameter name to its text. A parameter that is absent
  is \<open>undefined\<close>, which \<open>parseInt\<close> and \<open>parseFloat\<close> read as the text \<open>undefined\<close>.
  \<open>!v\<close> holds for an absent parameter and for the empty text.
\<close>

type_synonym query = "string \<rightharpoonup> string"

definition argText :: "string option \<Rightarrow> string" where
  "argText v = orDefault v ''undefined''"

definition falsy :: "string option \<Rightarrow> bool" where
  "falsy v \<longleftrightarrow> v = None \<or> v = Some []"

definition missingCoordinates :: "query \<Rightarrow> bool" where
  "missingCoordinates q \<longleftrightarrow>
     falsy (q ''txLat'') \<or> falsy (q ''txLon'') \<or> falsy (q ''rxLat'') \<or> falsy (q ''rxLon'')"

text \<open>What the handlers read from \<open>new Date()\<close>.\<close>

record date =
  getFullYear :: int
  getMonth :: int
  getUTCHours :: int

text \<open>\<open>parseInt(hour) || new Date().getUTCHours() || 12\<close>\<close>

definition requestHour :: "date \<Rightarrow> query \<Rightarrow> jsint" where
  "requestHour now q =
     orInt (orInt (parseInt (argText (q ''hour''))) (JInt (getUTCHours now))) (JInt 12)"

datatype 'a response = BadRequest string | ServerError string | Success 'a

subsection \<open>GET /api/predict\<close>

definition predictParams :: "date \<Rightarrow> query \<Rightarrow> params" where
  "predictParams now q =
     \<lparr>txLat = parseFloat (argText (q ''txLat'')),
      txLon = parseFloat (argText (q ''txLon'')),
      rxLat = parseFloat (argText (q ''rxLat'')),
      rxLon = parseFloat (argText (q ''rxLon'')),
      year = (case q ''year'' of None \<Rightarrow> JInt (getFullYear now) | Some y \<Rightarrow> parseInt y),
      month = orInt (parseInt (argText (q ''month''))) (JInt (getMonth now + 1)),
      hour = requestHour now q,
      ssn = Some (orInt (parseInt (argText (q ''ssn''))) (JInt 100)),
      txPower = Some (orInt (parseInt (argText (q ''txPower''))) (JInt 100)),
      txGain = None,
      rxGain = None,
      probes = (if falsy (q ''frequencies'') then None
                else Some (map parseFloat (str_split (CHR '','') (argText (q ''frequencies''))))),
      manMadeNoise = None,
      requiredReliability = None,
      requiredSNR = None\<rparr>"

definition apiPredict :: "env \<Rightarrow> date \<Rightarrow> world \<Rightarrow> query \<Rightarrow> prediction_result response \<times> world" where
  "apiPredict e now w q =
     (if missingCoordinates q
      then (BadRequest ''Missing required coordinates (txLat, txLon, rxLat, rxLon)'', w)
      else (case runPrediction e w (predictParams now q) of
              (Inl err, w') \<Rightarrow> (ServerError (message err), w')
            | (Inr results, w') \<Rightarrow> (Success results, w')))"

subsection \<open>GET /api/predict/hourly\<close>

text \<open>One entry of the list \<open>hourlyResults\<close>: the result of an hour, or its error.\<close>

datatype hourly_entry =
    HourResult nat "jsnum option" "freq_result list"
  | HourError nat string

fun entryHour :: "hourly_entry \<Rightarrow> nat" where
  "entryHour (HourResult h m fs) = h"
| "entryHour (HourError h msg) = h"

text \<open>
  The base parameters have no hour; the loop sets it in the copy it passes on, so the
  hour of the base record is never read.
\<close>

definition hourlyParams :: "date \<Rightarrow> query \<Rightarrow> params" where
  "hourlyParams now q =
     \<lparr>txLat = parseFloat (argText (q ''txLat'')),
      txLon = parseFloat (argText (q ''txLon'')),
      rxLat = parseFloat (argText (q ''rxLat'')),
      rxLon = parseFloat (argText (q ''rxLon'')),
      year = (case q ''year'' of None \<Rightarrow> JInt (getFullYear now) | Some y \<Rightarrow> parseInt y),
      month = orInt (parseInt (argText (q ''month''))) (JInt (getMonth now + 1)),
      hour = INaN,
      ssn = Some (orInt (parseInt (argText (q ''ssn''))) (JInt 100)),
      txPower = None,
      txGain = None,
      rxGain = None,
      probes = None,
      manMadeNoise = None,
      requiredReliability = None,
      requiredSNR = None\<rparr>"

text \<open>One turn of the loop: the prediction of an hour, caught into an entry.\<close>

definition hourlyStep :: "env \<Rightarrow> params \<Rightarrow> nat \<Rightarrow> world \<Rightarrow> hourly_entry \<times> world" where
  "hourlyStep e baseParams h w =
     (case runPrediction e w (baseParams\<lparr>hour := JInt (int h)\<rparr>) of
        (Inr result, w') \<Rightarrow> (HourResult h (muf result) (frequencies result), w')
      | (Inl err, w') \<Rightarrow> (HourError h (message err), w'))"

text \<open>\<open>for (let hour = 0; hour < 24; hour++)\<close>\<close>

function hourlyLoop ::
    "env \<Rightarrow> params \<Rightarrow> nat \<Rightarrow> hourly_entry list \<Rightarrow> world \<Rightarrow> hourly_entry list \<times> world" where
  "hourlyLoop e baseParams h hourlyResults w =
     (if h < 24
      then hourlyLoop e baseParams (Suc h)
             (hourlyResults @ [fst (hourlyStep e baseParams h w)]) (snd (hourlyStep e baseParams h w))
      else (hourlyResults, w))"
  by pat_completeness auto
termination
  by (relation "measure (\<lambda>(e, baseParams, h, hourlyResults, w). 24 - h)") auto

declare hourlyLoop.simps [simp del]

definition hourlyBatch :: "env \<Rightarrow> params \<Rightarrow> world \<Rightarrow> hourly_entry list \<times> world" where
  "hourlyBatch e baseParams w = hourlyLoop e baseParams 0 [] w"

record hourly_body =
  path_tx :: "jsnum \<times> jsnum"
  path_rx :: "jsnum \<times> jsnum"
  body_month :: jsint
  body_year :: jsint
  body_ssn :: "jsint option"
  hourly :: "hourly_entry list"

definition apiPredictHourly :: "env \<Rightarrow> date \<Rightarrow> world \<Rightarrow> query \<Rightarrow> hourly_body response \<times> world" where
  "apiPredictHourly e now w q =
     (if missingCoordinates q
      then (BadRequest ''Missing required coordinates (txLat, txLon, rxLat, rxLon)'', w)
      else (let baseParams = hourlyParams now q;
                ran = hourlyBatch e baseParams w
            in (Success \<lparr>path_tx = (txLat baseParams, txLon baseParams),
                         path_rx = (rxLat baseParams, rxLon baseParams),
                         body_month = month baseParams, body_year = year baseParams,
                         body_ssn = ssn baseParams, hourly = fst ran\<rparr>, snd ran)))"

subsection \<open>GET /api/bands\<close>

datatype band_status = GOOD | FAIR | POOR

record band_info = freq_result +
  status :: band_status

definition bandStatus :: "jsnum \<Rightarrow> band_status" where
  "bandStatus rel = (if js_ge rel (Fin 70) then GOOD else if js_ge rel (Fin 40) then FAIR else POOR)"

text \<open>\<open>bandFreqs.find(([name, freq]) => Math.abs(freq - freqResult.freq) < 1)\<close>\<close>

definition findBand :: "(string \<times> jsnum) list \<Rightarrow> freq_result \<Rightarrow> (string \<times> jsnum) option" where
  "findBand bandFreqs freqResult =
     List.find (\<lambda>(name, f). js_lt (js_abs (js_sub f (freq freqResult))) (Fin 1)) bandFreqs"

definition bandInfo :: "freq_result \<Rightarrow> band_info" where
  "bandInfo freqResult =
     \<lparr>freq = freq freqResult, sdbw = sdbw freqResult, snr = snr freqResult,
      reliability = reliability freqResult, status = bandStatus (reliability freqResult)\<rparr>"

text \<open>The loop over \<open>results.frequencies\<close> that fills the object \<open>bands\<close>.\<close>

fun mapBands ::
    "(string \<times> jsnum) list \<Rightarrow> freq_result list \<Rightarrow> (string \<rightharpoonup> band_info) \<Rightarrow> (string \<rightharpoonup> band_info)" where
  "mapBands bandFreqs [] bands = bands"
| "mapBands bandFreqs (freqResult # rest) bands =
     mapBands bandFreqs rest
       (case findBand bandFreqs freqResult of
          None \<Rightarrow> bands
        | Some bandEntry \<Rightarrow> bands(fst bandEntry \<mapsto> bandInfo freqResult))"

definition bandsParams :: "date \<Rightarrow> query \<Rightarrow> params" where
  "bandsParams now q =
     \<lparr>txLat = parseFloat (argText (q ''txLat'')),
      txLon = parseFloat (argText (q ''txLon'')),
      rxLat = parseFloat (argText (q ''rxLat'')),
      rxLon = parseFloat (argText (q ''rxLon'')),
      year = JInt (getFullYear now),
      month = orInt (parseInt (argText (q ''month''))) (JInt (getMonth now + 1)),
      hour = requestHour now q,
      ssn = Some (orInt (parseInt (argText (q ''ssn''))) (JInt 100)),
      txPower = None,
      txGain = None,
      rxGain = None,
      probes = Some (map snd HF_BANDS),
      manMadeNoise = None,
      requiredReliability = None,
      requiredSNR = None\<rparr>"

text \<open>The body of the answer, without the debug block and the time stamp.\<close>

record bands_body =
  body_muf :: "jsnum option"
  bands :: "string \<rightharpoonup> band_info"

definition apiBands :: "env \<Rightarrow> date \<Rightarrow> world \<Rightarrow> query \<Rightarrow> bands_body response \<times> world" where
  "apiBands e now w q =
     (if missingCoordinates q
      then (BadRequest ''Missing required coordinates'', w)
      else (case runPrediction e w (bandsParams now q) of
              (Inl err, w') \<Rightarrow> (ServerError (message err), w')
            | (Inr results, w') \<Rightarrow>
                (Success \<lparr>body_muf = muf results,
                          bands = mapBands HF_BANDS (frequencies results) Map.empty\<rparr>, w')))"

section \<open>Sample values\<close>

definition sampleParams :: params where
  "sampleParams =
     \<lparr>txLat = Fin 40, txLon = Fin (- 74), rxLat = Fin 51, rxLon = Fin 0,
      year = JInt 2025, month = JInt 6, hour = JInt 0,
      ssn = Some (JInt 100), txPower = Some (JInt 100), txGain = None, rxGain = None,
      probes = None, manMadeNoise = None, requiredReliability = None, requiredSNR = None\<rparr>"

text \<open>Result entries near the 20 m band.\<close>

definition goodEntry :: freq_result where
  "goodEntry = \<lparr>freq = Fin 14.05, sdbw = Fin (- 100), snr = Fin 10, reliability = Fin 80\<rparr>"

definition poorEntry :: freq_result where
  "poorEntry = \<lparr>freq = Fin 14.5, sdbw = Fin (- 120), snr = Fin 2, reliability = Fin 30\<rparr>"

definition fairEntry :: freq_result where
  "fairEntry = \<lparr>freq = Fin 14.05, sdbw = Fin (- 100), snr = Fin 10, reliability = Fin 69.99\<rparr>"

subsection \<open>Names for the statements about a run\<close>

text \<open>
  The token of an invocation, the command line of the engine, and the world in which the
  engine starts when the scratch directory could be made and the input file written.
\<close>

definition invocationId :: "env \<Rightarrow> world \<Rightarrow> string" where
  "invocationId e w = randomHex e (draws w)"

definition engineCommand :: "env \<Rightarrow> world \<Rightarrow> string" where
  "engineCommand e w =
     ITURHFPROP_PATH e @ '' '' @ inputPathOf (invocationId e w) @ '' '' @ outputPathOf (invocationId e w)"

definition engineWorld :: "env \<Rightarrow> world \<Rightarrow> params \<Rightarrow> world" where
  "engineWorld e w p =
     w\<lparr>draws := Suc (draws w), temp_dir := True,
       files := (files w)(inputPathOf (invocationId e w) \<mapsto> generateInputFile (ITURHFPROP_DATA e) p)\<rparr>"

text \<open>The world at the start of the turn of an hour of the batch.\<close>

fun worldAt :: "env \<Rightarrow> params \<Rightarrow> world \<Rightarrow> nat \<Rightarrow> world" where
  "worldAt e baseParams w 0 = w"
| "worldAt e baseParams w (Suc h) = snd (hourlyStep e baseParams h (worldAt e baseParams w h))"

subsection \<open>Sample environments\<close>

definition tokenOf :: "nat \<Rightarrow> string" where
  "tokenOf n = replicate (16 - length (natDigits n)) (CHR ''0'') @ natDigits n"

definition emptyWorld :: world where
  "emptyWorld =
     \<lparr>files = Map.empty, temp_dir = False, clock = 0, draws = 0,
      read_fault = {}, stat_fault = {}, tmp_listing = Inr []\<rparr>"

text \<open>An engine that writes the sample report and fails, and one that writes it and succeeds.\<close>

definition failingEngine :: "string \<Rightarrow> world \<Rightarrow> (exec_error + string) \<times> world" where
  "failingEngine cmd w =
     (Inl \<lparr>exitStatus = Some 1, stdout = Some ''partial'', stderr = Some ''engine failed''\<rparr>,
      w\<lparr>files := (files w)(reportPath \<mapsto> str_join [newline] sampleLines), clock := clock w + 1200\<rparr>)"

definition writingEngine :: "string \<Rightarrow> world \<Rightarrow> (exec_error + string) \<times> world" where
  "writingEngine cmd w =
     (Inr ''done'',
      w\<lparr>files := (files w)(reportPath \<mapsto> str_join [newline] sampleLines), clock := clock w + 1200\<rparr>)"

text \<open>
  An engine that fails after writing a report that cannot be read, and one that fails
  without writing anything; a world in which \<open>/tmp\<close> cannot be listed.
\<close>

definition unreadableEngine :: "string \<Rightarrow> world \<Rightarrow> (exec_error + string) \<times> world" where
  "unreadableEngine cmd w =
     (Inl \<lparr>exitStatus = Some 1, stdout = Some ''partial'', stderr = Some ''engine failed''\<rparr>,
      w\<lparr>files := (files w)(reportPath \<mapsto> str_join [newline] sampleLines),
        clock := clock w + 1200, read_fault := insert reportPath (read_fault w)\<rparr>)"

definition silentEngine :: "string \<Rightarrow> world \<Rightarrow> (exec_error + string) \<times> world" where
  "silentEngine cmd w =
     (Inl \<lparr>exitStatus = Some 127, stdout = Some [], stderr = Some ''not found''\<rparr>, w)"

definition closedTmpWorld :: world where
  "closedTmpWorld =
     emptyWorld\<lparr>tmp_listing := Inl (Error (''EACCES: permission denied, scandir '' @ quoted ''/tmp''))\<rparr>"

text \<open>An engine that writes nothing.\<close>

definition idleEngine :: "string \<Rightarrow> world \<Rightarrow> (exec_error + string) \<times> world" where
  "idleEngine cmd w = (Inr [], w)"

definition envWith ::
    "(string \<Rightarrow> world \<Rightarrow> (exec_error + string) \<times> world) \<Rightarrow> string set \<Rightarrow> string set \<Rightarrow> env" where
  "envWith engine unwritable undeletable =
     \<lparr>ITURHFPROP_PATH = ''/opt/iturhfprop/ITURHFProp'', ITURHFPROP_DATA = ''/opt/iturhfprop'',
      randomHex = tokenOf, mkdir_fault = {}, write_fault = unwritable,
      unlink_fault = undeletable, execSync = engine\<rparr>"

section \<open>Properties of the strings\<close>

lemma startsWith_append: "startsWith s (a @ b) \<Longrightarrow> startsWith s a"
  by (induction s a rule: startsWith.induct) auto

lemma str_includes_append: "str_includes s (a @ b) \<Longrightarrow> str_includes s a"
  by (induction s) (auto dest: startsWith_append)

lemma str_split_line: "sep \<notin> set l \<Longrightarrow> str_split sep (l @ sep # rest) = l # str_split sep rest"
  by (induction l) auto

lemma str_split_last: "sep \<notin> set l \<Longrightarrow> str_split sep l = [l]"
  by (induction l) auto

lemma str_split_join:
  "ls \<noteq> [] \<Longrightarrow> \<forall>l \<in> set ls. sep \<notin> set l \<Longrightarrow> str_split sep (str_join [sep] ls) = ls"
  by (induction "[sep]" ls rule: str_join.induct) (simp_all add: str_split_last str_split_line)

lemmas float_eval = parseFloat_def trimStart_def isWhiteSpace_def unsignedLiteral_def isDigit_def
  digitsVal_def digitVal_def exponentPart_def pow10_def

lemmas line_eval = trim_def isHeader_def isBoundary_def

section \<open>Properties of the output parser\<close>

lemma footer_not_header: "str_includes t ''End Calculated'' \<Longrightarrow> \<not> isHeader t"
  using str_includes_append [of t "''End''" "'' Calculated''"] by (simp add: isHeader_def)

lemma scanLine_header: "isHeader (trim line) \<Longrightarrow> scanLine st line = Some (True, snd st)"
  by (simp add: scanLine_def)

lemma scanLine_outside:
  "\<not> isHeader (trim line) \<Longrightarrow> scanLine (False, rows) line = Some (False, rows)"
  by (simp add: scanLine_def)

lemma scanLines_preamble:
  "\<forall>l \<in> set pre. \<not> isHeader (trim l) \<Longrightarrow>
   scanLines (False, rows) (pre @ rest) = scanLines (False, rows) rest"
  by (induction pre) (simp_all add: scanLine_outside)

lemma parseRow_dataRow:
  "6 \<le> length (rowFields line) \<Longrightarrow> acceptedFreq (freq (rowRecord line)) \<Longrightarrow>
   parseRow (trim line) = Some (rowRecord line)"
  by (simp add: parseRow_def rowFields_def rowRecord_def acceptedFreq_def Let_def)

lemma scanLine_dataRow:
  "dataRow line \<Longrightarrow> acceptedFreq (freq (rowRecord line)) \<Longrightarrow>
   scanLine (True, rows) line = Some (True, rows @ [rowRecord line])"
  by (simp add: scanLine_def dataRow_def parseRow_dataRow)

lemma scanLine_footer:
  "str_includes (trim line) ''End Calculated'' \<Longrightarrow> rows \<noteq> [] \<Longrightarrow>
   scanLine (True, rows) line = None"
  by (simp add: scanLine_def footer_not_header isBoundary_def)

lemma parseRow_accepted: "parseRow t = Some r \<Longrightarrow> acceptedFreq (freq r)"
  by (auto simp: parseRow_def acceptedFreq_def Let_def split: if_splits)

lemma scanLine_accepted:
  "scanLine st line = Some st' \<Longrightarrow> \<forall>r \<in> set (snd st). acceptedFreq (freq r) \<Longrightarrow>
   \<forall>r \<in> set (snd st'). acceptedFreq (freq r)"
  by (auto simp: scanLine_def Let_def split: if_splits option.splits dest: parseRow_accepted)

lemma scanLines_accepted:
  "\<forall>r \<in> set (snd st). acceptedFreq (freq r) \<Longrightarrow>
   \<forall>r \<in> set (scanLines st ls). acceptedFreq (freq r)"
proof (induction ls arbitrary: st)
  case Nil
  then show ?case by simp
next
  case (Cons l ls)
  show ?case
  proof (cases "scanLine st l")
    case None
    with Cons.prems show ?thesis by simp
  next
    case (Some st')
    with Cons.prems have "\<forall>r \<in> set (snd st'). acceptedFreq (freq r)"
      using scanLine_accepted by blast
    with Cons.IH Some show ?thesis by simp
  qed
qed

lemma parseOutputFile_read:
  "readFileSync w p = Inr output \<Longrightarrow>
   parseOutputFile w p =
     Inr \<lparr>frequencies = scanLines (False, []) (str_split newline output),
          raw = Some (take 3000 output), muf = map_option parseFloat (mufMatch output),
          error = None\<rparr>"
  by (simp add: parseOutputFile_def parseOutputFile_try_def)

lemma parseOutputFile_unreadable:
  "readFileSync w p = Inl err \<Longrightarrow>
   parseOutputFile w p =
     Inr \<lparr>frequencies = [], raw = None, muf = None, error = Some (message err)\<rparr>"
  by (simp add: parseOutputFile_def parseOutputFile_try_def)

lemma parsedFrequencies_accepted:
  "\<forall>r \<in> set (parsedFrequencies (parseOutputFile w p)). acceptedFreq (freq r)"
proof (cases "readFileSync w p")
  case (Inl err)
  then show ?thesis
    by (simp add: parseOutputFile_unreadable parsedFrequencies_def)
next
  case (Inr content)
  have "\<forall>r \<in> set (scanLines (False, []) (str_split newline content)). acceptedFreq (freq r)"
    by (rule scanLines_accepted) simp
  with Inr show ?thesis
    by (simp add: parseOutputFile_read parsedFrequencies_def)
qed

subsection \<open>The sample reports\<close>

lemma readFileSync_worldWith: "readFileSync (worldWith p content) p = Inr content"
  by (simp add: readFileSync_def worldWith_def)

lemma sampleLines_split: "str_split newline (str_join [newline] sampleLines) = sampleLines"
  by (rule str_split_join) (simp_all add: sampleLines_def newline_def)

lemma infinityLines_split: "str_split newline (str_join [newline] infinityLines) = infinityLines"
  by (rule str_split_join) (simp_all add: infinityLines_def newline_def)

lemma scan_infinityLines:
  "scanLines (False, []) infinityLines =
     [\<lparr>freq = PInf, sdbw = Fin (- 100.5), snr = Fin 20.5, reliability = Fin 75\<rparr>,
      \<lparr>freq = Fin 14.1, sdbw = Fin (- 99.5), snr = Fin 12.5, reliability = Fin 69.99\<rparr>,
      \<lparr>freq = Fin 28.1, sdbw = Fin (- 130), snr = Fin (- 5), reliability = Fin 0\<rparr>]"
  by (simp add: infinityLines_def scanLine_def Let_def parseRow_def js_gt_def line_eval float_eval)

lemma sample_row1:
  "dataRow ''02, 05, 7.100, -100.50, 20.50, 75.00''"
  "rowRecord ''02, 05, 7.100, -100.50, 20.50, 75.00''
     = \<lparr>freq = Fin 7.1, sdbw = Fin (- 100.5), snr = Fin 20.5, reliability = Fin 75\<rparr>"
  by (simp_all add: dataRow_def rowRecord_def rowFields_def line_eval float_eval)

lemma sample_row2:
  "dataRow ''02, 05, 14.100, -99.50, 12.50, 69.99''"
  "rowRecord ''02, 05, 14.100, -99.50, 12.50, 69.99''
     = \<lparr>freq = Fin 14.1, sdbw = Fin (- 99.5), snr = Fin 12.5, reliability = Fin 69.99\<rparr>"
  by (simp_all add: dataRow_def rowRecord_def rowFields_def line_eval float_eval)

lemma sample_row3:
  "dataRow ''02, 05, 28.100, -130.00, -5.00, 0.00''"
  "rowRecord ''02, 05, 28.100, -130.00, -5.00, 0.00''
     = \<lparr>freq = Fin 28.1, sdbw = Fin (- 130), snr = Fin (- 5), reliability = Fin 0\<rparr>"
  by (simp_all add: dataRow_def rowRecord_def rowFields_def line_eval float_eval)

subsection \<open>Claim C8: when a boundary line ends the table\<close>



subsection \<open>Claim C1: a report with three rows\<close>

text \<open>
  C1, as the code has it. A report whose lines are a preamble without a header line, a
  "Calculated Parameters" header, three data rows of at least six fields whose frequency
  field parses to a number that is not NaN and is greater than zero, a footer containing
  "End Calculated", and anything after it, is parsed into exactly the three records of
  the rows, in row order, each with the float parses of the fields 2, 3, 4 and 5. For
  every input, a row is in the result only if its frequency is not NaN and greater than
  zero. The test does not ask for a finite value: \<open>Infinity\<close> is accepted.
\<close>

theorem three_rows_parsed:
  assumes "readFileSync w path = Inr output"
    and "str_split newline output = pre @ [hdr, r1, r2, r3, ftr] @ post"
    and "\<forall>l \<in> set pre. \<not> isHeader (trim l)"
    and "isHeader (trim hdr)"
    and "dataRow r1" "dataRow r2" "dataRow r3"
    and "acceptedFreq (freq (rowRecord r1))" "acceptedFreq (freq (rowRecord r2))"
      "acceptedFreq (freq (rowRecord r3))"
    and "str_includes (trim ftr) ''End Calculated''"
  shows "(\<exists>res. parseOutputFile w path = Inr res
            \<and> frequencies res = [rowRecord r1, rowRecord r2, rowRecord r3])
         \<and> (\<forall>w' path'. \<forall>r \<in> set (parsedFrequencies (parseOutputFile w' path')).
               \<not> isNaN (freq r) \<and> js_gt (freq r) (Fin 0))"
proof
  have "scanLines (False, []) (pre @ [hdr, r1, r2, r3, ftr] @ post)
          = [rowRecord r1, rowRecord r2, rowRecord r3]"
    using assms(3-)
    by (simp add: scanLines_preamble scanLine_header scanLine_dataRow scanLine_footer)
  with assms(1,2) show "\<exists>res. parseOutputFile w path = Inr res
            \<and> frequencies res = [rowRecord r1, rowRecord r2, rowRecord r3]"
    by (simp add: parseOutputFile_read)
next
  show "\<forall>w' path'. \<forall>r \<in> set (parsedFrequencies (parseOutputFile w' path')).
               \<not> isNaN (freq r) \<and> js_gt (freq r) (Fin 0)"
    using parsedFrequencies_accepted by (simp add: acceptedFreq_def)
qed

theorem three_rows_parsed_witness:
  "readFileSync (worldWith reportPath (str_join [newline] sampleLines)) reportPath
     = Inr (str_join [newline] sampleLines)
   \<and> str_split newline (str_join [newline] sampleLines) = sampleLines
   \<and> (\<exists>res. parseOutputFile (worldWith reportPath (str_join [newline] sampleLines)) reportPath
               = Inr res
        \<and> frequencies res =
            [\<lparr>freq = Fin 7.1, sdbw = Fin (- 100.5), snr = Fin 20.5, reliability = Fin 75\<rparr>,
             \<lparr>freq = Fin 14.1, sdbw = Fin (- 99.5), snr = Fin 12.5, reliability = Fin 69.99\<rparr>,
             \<lparr>freq = Fin 28.1, sdbw = Fin (- 130), snr = Fin (- 5), reliability = Fin 0\<rparr>])"
proof -
  let ?w = "worldWith reportPath (str_join [newline] sampleLines)"
  have split: "str_split newline (str_join [newline] sampleLines)
      = [] @ [''Calculated Parameters'', ''02, 05, 7.100, -100.50, 20.50, 75.00'',
              ''02, 05, 14.100, -99.50, 12.50, 69.99'', ''02, 05, 28.100, -130.00, -5.00, 0.00'',
              ''End Calculated Parameters''] @ []"
    by (simp add: sampleLines_split) (simp add: sampleLines_def)
  have hdr: "isHeader (trim ''Calculated Parameters'')"
    by (simp add: line_eval isWhiteSpace_def)
  have ftr: "str_includes (trim ''End Calculated Parameters'') ''End Calculated''"
    by (simp add: line_eval isWhiteSpace_def)
  have acc: "acceptedFreq (freq (rowRecord ''02, 05, 7.100, -100.50, 20.50, 75.00''))"
    "acceptedFreq (freq (rowRecord ''02, 05, 14.100, -99.50, 12.50, 69.99''))"
    "acceptedFreq (freq (rowRecord ''02, 05, 28.100, -130.00, -5.00, 0.00''))"
    by (simp_all add: sample_row1 sample_row2 sample_row3 acceptedFreq_def js_gt_def)
  from three_rows_parsed [OF readFileSync_worldWith split _ hdr sample_row1(1) sample_row2(1)
      sample_row3(1) acc ftr]
  have "\<exists>res. parseOutputFile ?w reportPath = Inr res
        \<and> frequencies res =
            [\<lparr>freq = Fin 7.1, sdbw = Fin (- 100.5), snr = Fin 20.5, reliability = Fin 75\<rparr>,
             \<lparr>freq = Fin 14.1, sdbw = Fin (- 99.5), snr = Fin 12.5, reliability = Fin 69.99\<rparr>,
             \<lparr>freq = Fin 28.1, sdbw = Fin (- 130), snr = Fin (- 5), reliability = Fin 0\<rparr>]"
    by (simp add: sample_row1 sample_row2 sample_row3)
  then show ?thesis
    by (simp add: readFileSync_worldWith sampleLines_split)
qed

text \<open>
  The claim as written asks for a finite frequency. A row whose frequency field is
  \<open>Infinity\<close> is kept: its frequency is not NaN and is greater than zero.
\<close>

theorem infinite_frequency_row_kept:
  "map freq (parsedFrequencies
      (parseOutputFile (worldWith reportPath (str_join [newline] infinityLines)) reportPath))
     = [PInf, Fin 14.1, Fin 28.1]
   \<and> \<not> isFiniteNum PInf"
  by (simp add: parseOutputFile_read [OF readFileSync_worldWith] parsedFrequencies_def
      infinityLines_split scan_infinityLines)

subsection \<open>Claim C2: the parser never throws\<close>

text \<open>
  C2, as the code has it. parseOutputFile never throws: every call returns a result. When
  the report cannot be read, the result has an empty frequency list and its error field
  holds the message of the exception. When the report is read, the result has no error
  field, whatever the text is; an empty or garbled report gives the rows the scan finds,
  which may be none.
\<close>

theorem parseOutputFile_never_throws:
  "\<exists>res. parseOutputFile w path = Inr res
     \<and> (case readFileSync w path of
          Inl err \<Rightarrow> frequencies res = [] \<and> error res = Some (message err)
        | Inr output \<Rightarrow>
            error res = None
            \<and> frequencies res = scanLines (False, []) (str_split newline output))"
  by (cases "readFileSync w path") (simp_all add: parseOutputFile_read parseOutputFile_unreadable)

theorem parseOutputFile_never_throws_witness:
  "\<exists>res. parseOutputFile (worldWith reportPath ''no table here'') ''/tmp/iturhfprop/missing.txt''
       = Inr res
     \<and> frequencies res = []
     \<and> error res = Some (''ENOENT: no such file or directory, open ''
                          @ quoted ''/tmp/iturhfprop/missing.txt'')"
  using parseOutputFile_never_throws
    [of "worldWith reportPath ''no table here''" "''/tmp/iturhfprop/missing.txt''"]
  by (simp add: readFileSync_def worldWith_def reportPath_def)

text \<open>
  The claim as written promises a descriptive error for a report without usable rows. The
  empty report is read without an exception, so the result has no error field.
\<close>

theorem empty_report_has_no_error:
  "parseOutputFile (worldWith reportPath '''') reportPath
     = Inr \<lparr>frequencies = [], raw = Some [], muf = None, error = None\<rparr>"
  by (simp add: parseOutputFile_read [OF readFileSync_worldWith] scanLine_def Let_def line_eval)
section \<open>Properties of the input serializer\<close>

lemma natDigits_small: "n < 10 \<Longrightarrow> natDigits n = [digitChar n]"
  by (simp add: natDigits.simps)

lemma natDigits_large: "10 \<le> n \<Longrightarrow> natDigits n = natDigits (n div 10) @ [digitChar (n mod 10)]"
  by (subst natDigits.simps) simp

lemma digitChar_digit: "d < 10 \<Longrightarrow> digitChar d \<in> set ''0123456789''"
  unfolding digitChar_def by (rule nth_mem) simp

lemma natDigits_digits: "set (natDigits n) \<subseteq> set ''0123456789''"
proof (induction n rule: natDigits.induct)
  case (1 n)
  show ?case
  proof (cases "n < 10")
    case True
    then show ?thesis
      using digitChar_digit [of n] by (simp add: natDigits_small)
  next
    case False
    then have "set (natDigits (n div 10)) \<subseteq> set ''0123456789''"
      using "1" by simp
    moreover have "digitChar (n mod 10) \<in> set ''0123456789''"
      by (rule digitChar_digit) simp
    ultimately show ?thesis
      using False by (simp add: natDigits_large)
  qed
qed

lemma natDigits_no_newline: "newline \<notin> set (natDigits n)"
  using natDigits_digits [of n] by (auto simp: newline_def)

lemma intToString_no_newline: "newline \<notin> set (intToString n)"
  by (cases n) (simp_all add: natDigits_no_newline, simp_all add: newline_def)

lemma padded_no_newline: "newline \<notin> set (replicate j (CHR ''0'') @ natDigits n)"
  using natDigits_no_newline [of n] by (auto simp: newline_def)

lemma point_no_newline: "newline \<notin> set xs \<Longrightarrow> newline \<notin> set (take k xs @ ''.'' @ drop k xs)"
  by (auto dest: in_set_takeD in_set_dropD simp: newline_def)

lemma fixedDigits_no_newline: "newline \<notin> set (fixedDigits d x)"
  unfolding fixedDigits_def Let_def
  by (split if_split) (intro conjI impI padded_no_newline point_no_newline)

lemma toFixed_no_newline: "newline \<notin> set (toFixed x d)"
  by (cases x) (simp_all add: fixedDigits_no_newline, simp_all add: newline_def)

lemma str_join_no_newline:
  "newline \<notin> set sep \<Longrightarrow> \<forall>x \<in> set xs. newline \<notin> set x \<Longrightarrow> newline \<notin> set (str_join sep xs)"
  by (induction sep xs rule: str_join.induct) auto

lemma str_split_leading_lines:
  "\<forall>l \<in> set pre. newline \<notin> set l \<Longrightarrow>
   str_split newline (concat (map (\<lambda>l. l @ [newline]) pre) @ rest) = pre @ str_split newline rest"
  by (induction pre) (simp_all add: str_split_line)

lemma generateInputFile_line:
  assumes "i < n" and "n \<le> length (inputLines dataPath p)"
    and "\<forall>l \<in> set (take n (inputLines dataPath p)). newline \<notin> set l"
  shows "str_split newline (generateInputFile dataPath p) ! i = inputLines dataPath p ! i"
proof -
  let ?ls = "inputLines dataPath p"
  have "generateInputFile dataPath p
      = concat (map (\<lambda>l. l @ [newline]) (take n ?ls)) @ concat (map (\<lambda>l. l @ [newline]) (drop n ?ls))"
    unfolding generateInputFile_def
    by (metis append_take_drop_id concat_append map_append)
  then have "str_split newline (generateInputFile dataPath p)
      = take n ?ls @ str_split newline (concat (map (\<lambda>l. l @ [newline]) (drop n ?ls)))"
    using assms(3) by (simp add: str_split_leading_lines)
  with assms(1,2) show ?thesis
    by (simp add: nth_append)
qed

lemma leading_lines_no_newline:
  "\<forall>l \<in> set (take 18 (inputLines dataPath p)). newline \<notin> set l"
proof -
  have "newline \<notin> set (str_join '', '' (map (\<lambda>f. toFixed f 3) fs))" for fs
    by (rule str_join_no_newline) (simp_all add: newline_def toFixed_no_newline [unfolded newline_def])
  then show ?thesis
    using toFixed_no_newline intToString_no_newline
    by (simp add: inputLines_def Let_def txpowerText_def) (simp add: newline_def)
qed

lemma length_inputLines: "length (inputLines dataPath p) = 35"
  by (simp add: inputLines_def Let_def)

lemma log10_tenth: "log 10 (1 / 10) = - 1"
  by (simp add: log_divide)

lemma fixedDigits_near_ten:
  assumes "9.95 \<le> y" and "y < 10.05"
  shows "fixedDigits 1 y = ''10.0''"
proof -
  have "\<lfloor>y * 10 + 1 / 2\<rfloor> = 100"
    using assms by (intro floor_unique) simp_all
  then show ?thesis
    by (simp add: fixedDigits_def natDigits_small natDigits_large digitChar_def)
qed

lemma toFixed_near_minus_ten:
  assumes "- 10.05 < x" and "x \<le> - 9.95"
  shows "toFixed (Fin x) 1 = ''-10.0''"
  using assms fixedDigits_near_ten [of "- x"] by simp

lemma txpowerText_100: "txpowerText (JInt 100) = ''-10.0''"
  by (simp add: txpowerText_def log10_tenth fixedDigits_def Let_def natDigits_small natDigits_large digitChar_def)

subsection \<open>Claim C3: the hour of the engine\<close>

text \<open>
  C3. For every request whose hour is an integer from 0 to 23, the serialized input has
  the line \<open>Path.hour 24\<close> when the hour is 0 and the line \<open>Path.hour h\<close> for every other
  hour \<open>h\<close>. It is the fifteenth line of the text.
\<close>

theorem path_hour_line:
  assumes "hour p = JInt h" and "0 \<le> h" and "h \<le> 23"
  shows "str_split newline (generateInputFile dataPath p) ! 14
           = ''Path.hour '' @ (if h = 0 then ''24'' else intToString (JInt h))"
proof -
  have "str_split newline (generateInputFile dataPath p) ! 14 = inputLines dataPath p ! 14"
    by (rule generateInputFile_line [where n = 18])
       (simp_all add: length_inputLines leading_lines_no_newline)
  with assms show ?thesis
    by (simp add: inputLines_def Let_def engineHour_def natDigits_small natDigits_large
        digitChar_def)
qed

theorem path_hour_line_witness:
  "hour sampleParams = JInt 0
   \<and> str_split newline (generateInputFile ''/opt/iturhfprop'' sampleParams) ! 14 = ''Path.hour 24''
   \<and> str_split newline (generateInputFile ''/opt/iturhfprop'' (sampleParams\<lparr>hour := JInt 13\<rparr>)) ! 14
       = ''Path.hour 13''"
  using path_hour_line [of sampleParams 0 "''/opt/iturhfprop''"]
    path_hour_line [of "sampleParams\<lparr>hour := JInt 13\<rparr>" 13 "''/opt/iturhfprop''"]
  by (simp add: sampleParams_def natDigits_small natDigits_large digitChar_def)

subsection \<open>Claim C9: the transmit power in dBkW\<close>

text \<open>
  C9. For a request with a transmit power of 100 watts, given or left to the default,
  the serialized input has the line \<open>Path.txpower -10.0\<close>: the text is
  \<open>10 \<cdot> log\<^sub>1\<^sub>0 (100 / 1000)\<close>, which is \<open>-10\<close>, printed with one decimal place. Every
  value less than 0.05 away from \<open>-10\<close> prints as the same text, so the rounding of the
  floating-point logarithm, which the exact reals leave out, does not change the line.
\<close>

theorem txpower_line_100_watts:
  assumes "orDefault (txPower p) (JInt 100) = JInt 100"
  shows "str_split newline (generateInputFile dataPath p) ! 17 = ''Path.txpower -10.0''
         \<and> toFixed (Fin (10 * log 10 (100 / 1000))) 1 = ''-10.0''
         \<and> (\<forall>x. - 10.05 < x \<and> x \<le> - 9.95 \<longrightarrow> toFixed (Fin x) 1 = ''-10.0'')"
proof (intro conjI)
  have "str_split newline (generateInputFile dataPath p) ! 17 = inputLines dataPath p ! 17"
    by (rule generateInputFile_line [where n = 18])
       (simp_all add: length_inputLines leading_lines_no_newline)
  with assms show "str_split newline (generateInputFile dataPath p) ! 17 = ''Path.txpower -10.0''"
    by (simp add: inputLines_def Let_def txpowerText_100)
next
  show "toFixed (Fin (10 * log 10 (100 / 1000))) 1 = ''-10.0''"
    using txpowerText_100 by (simp add: txpowerText_def)
next
  show "\<forall>x. - 10.05 < x \<and> x \<le> - 9.95 \<longrightarrow> toFixed (Fin x) 1 = ''-10.0''"
    using toFixed_near_minus_ten by blast
qed

theorem txpower_line_100_watts_witness:
  "txPower sampleParams = Some (JInt 100)
   \<and> str_split newline (generateInputFile ''/opt/iturhfprop'' sampleParams) ! 17
       = ''Path.txpower -10.0''"
  using txpower_line_100_watts [THEN conjunct1, of sampleParams "''/opt/iturhfprop''"]
  by (simp add: sampleParams_def orDefault_def)
section \<open>Properties of the endpoints\<close>

subsection \<open>Claim C10: hour 0 cannot be asked for\<close>

text \<open>
  C10. The hour that GET /api/predict passes to the prediction is never 0 (and never
  NaN). When the \<open>hour\<close> parameter parses to 0 or does not parse, the hour is the current
  UTC hour, and 12 when the current UTC hour is 0, so the serializer does not write the
  engine hour 24 for such a request. The handler passes these parameters to
  \<open>runPrediction\<close> whenever the coordinates are present.
\<close>

theorem predict_never_passes_hour_zero:
  "hour (predictParams now q) \<noteq> JInt 0
   \<and> hour (predictParams now q) \<noteq> INaN
   \<and> (parseInt (argText (q ''hour'')) = JInt 0 \<or> parseInt (argText (q ''hour'')) = INaN \<longrightarrow>
        hour (predictParams now q)
          = (if getUTCHours now = 0 then JInt 12 else JInt (getUTCHours now))
        \<and> (0 \<le> getUTCHours now \<and> getUTCHours now \<le> 23 \<longrightarrow>
             engineHour (hour (predictParams now q)) \<noteq> JInt 24))
   \<and> (\<not> missingCoordinates q \<longrightarrow>
        apiPredict e now w q
          = (case runPrediction e w (predictParams now q) of
               (Inl err, w') \<Rightarrow> (ServerError (message err), w')
             | (Inr results, w') \<Rightarrow> (Success results, w')))"
  by (auto simp: predictParams_def requestHour_def orInt_def apiPredict_def engineHour_def)

lemma parseInt_zero: "parseInt ''0'' = JInt 0"
  by (simp add: parseInt_def trimStart_def isWhiteSpace_def isDigit_def digitsVal_def digitVal_def)

lemma parseInt_undefined: "parseInt ''undefined'' = INaN"
  by (simp add: parseInt_def trimStart_def isWhiteSpace_def isDigit_def)

theorem predict_never_passes_hour_zero_witness:
  "parseInt (argText ([''hour'' \<mapsto> ''0''] ''hour'')) = JInt 0
   \<and> hour (predictParams \<lparr>getFullYear = 2025, getMonth = 5, getUTCHours = 0\<rparr> [''hour'' \<mapsto> ''0''])
       = JInt 12
   \<and> hour (predictParams \<lparr>getFullYear = 2025, getMonth = 5, getUTCHours = 7\<rparr> [''hour'' \<mapsto> ''0''])
       = JInt 7
   \<and> hour (predictParams \<lparr>getFullYear = 2025, getMonth = 5, getUTCHours = 7\<rparr> Map.empty)
       = JInt 7"
  using predict_never_passes_hour_zero
      [of "\<lparr>getFullYear = 2025, getMonth = 5, getUTCHours = 0\<rparr>" "[''hour'' \<mapsto> ''0'']"]
    predict_never_passes_hour_zero
      [of "\<lparr>getFullYear = 2025, getMonth = 5, getUTCHours = 7\<rparr>" "[''hour'' \<mapsto> ''0'']"]
    predict_never_passes_hour_zero
      [of "\<lparr>getFullYear = 2025, getMonth = 5, getUTCHours = 7\<rparr>" "Map.empty"]
  by (simp add: argText_def orDefault_def parseInt_zero parseInt_undefined)
subsection \<open>Claim C7: the band mapping\<close>

lemma mapBands_last:
  "mapBands bandFreqs results m name =
     (case filter (\<lambda>r. map_option fst (findBand bandFreqs r) = Some name) results of
        [] \<Rightarrow> m name
      | r # rs \<Rightarrow> Some (bandInfo (last (r # rs))))"
proof (induction results arbitrary: m)
  case Nil
  show ?case by simp
next
  case (Cons r results)
  show ?case
    by (cases "findBand bandFreqs r")
       (auto simp: Cons.IH split: list.splits)
qed

lemma findBand_samples:
  "findBand HF_BANDS goodEntry = Some (''20m'', Fin 14.1)"
  "findBand HF_BANDS poorEntry = Some (''20m'', Fin 14.1)"
  "findBand HF_BANDS fairEntry = Some (''20m'', Fin 14.1)"
  by (simp_all add: findBand_def HF_BANDS_def goodEntry_def poorEntry_def fairEntry_def)

lemma bandStatus_boundaries:
  "bandStatus (Fin 70) = GOOD" "bandStatus (Fin 69.99) = FAIR"
  "bandStatus (Fin 40) = FAIR" "bandStatus (Fin 39.99) = POOR"
  by (simp_all add: bandStatus_def js_ge_def)

lemma bandInfo_samples:
  "bandInfo fairEntry = \<lparr>freq = Fin 14.05, sdbw = Fin (- 100), snr = Fin 10,
     reliability = Fin 69.99, status = FAIR\<rparr>"
  "bandInfo poorEntry = \<lparr>freq = Fin 14.5, sdbw = Fin (- 120), snr = Fin 2,
     reliability = Fin 30, status = POOR\<rparr>"
  by (simp_all add: bandInfo_def fairEntry_def poorEntry_def bandStatus_def js_ge_def)

text \<open>
  C7, as the code has it. The loop runs over the result entries, not over the bands. Each
  entry goes to the first band, in the order of the band table, whose nominal frequency
  differs from the frequency of the entry by less than 1 MHz; an entry with no such band
  is dropped. A band holds the last entry, in result order, that went to it, and a band
  that no entry went to is absent. The status of a band is GOOD for a reliability of at
  least 70, FAIR for one of at least 40, and POOR otherwise, so 69.99 is FAIR and 39.99
  is POOR.
\<close>

theorem band_mapping:
  "mapBands bandFreqs results Map.empty name =
     (case filter (\<lambda>r. map_option fst (findBand bandFreqs r) = Some name) results of
        [] \<Rightarrow> None
      | r # rs \<Rightarrow> Some (bandInfo (last (r # rs))))
   \<and> findBand bandFreqs r
       = List.find (\<lambda>(name, f). js_lt (js_abs (js_sub f (freq r))) (Fin 1)) bandFreqs
   \<and> status (bandInfo r)
       = (if js_ge (reliability r) (Fin 70) then GOOD
          else if js_ge (reliability r) (Fin 40) then FAIR else POOR)
   \<and> bandStatus (Fin 70) = GOOD \<and> bandStatus (Fin 69.99) = FAIR
   \<and> bandStatus (Fin 40) = FAIR \<and> bandStatus (Fin 39.99) = POOR"
proof (intro conjI)
  show "mapBands bandFreqs results Map.empty name =
     (case filter (\<lambda>r. map_option fst (findBand bandFreqs r) = Some name) results of
        [] \<Rightarrow> None
      | r # rs \<Rightarrow> Some (bandInfo (last (r # rs))))"
    by (simp add: mapBands_last)
  show "findBand bandFreqs r
       = List.find (\<lambda>(name, f). js_lt (js_abs (js_sub f (freq r))) (Fin 1)) bandFreqs"
    by (simp add: findBand_def)
  show "status (bandInfo r)
       = (if js_ge (reliability r) (Fin 70) then GOOD
          else if js_ge (reliability r) (Fin 40) then FAIR else POOR)"
    by (simp add: bandInfo_def bandStatus_def)
qed (rule bandStatus_boundaries)+

theorem band_mapping_witness:
  "mapBands HF_BANDS [fairEntry] Map.empty ''20m''
     = Some \<lparr>freq = Fin 14.05, sdbw = Fin (- 100), snr = Fin 10, reliability = Fin 69.99,
             status = FAIR\<rparr>
   \<and> mapBands HF_BANDS [fairEntry] Map.empty ''17m'' = None"
  using band_mapping [THEN conjunct1, of HF_BANDS "[fairEntry]" "''20m''"]
    band_mapping [THEN conjunct1, of HF_BANDS "[fairEntry]" "''17m''"]
  by (simp add: findBand_samples bandInfo_samples)

text \<open>
  The claim as written gives a band the first entry within tolerance. With two entries
  within 1 MHz of the 20 m band, the band holds the second one.
\<close>

theorem later_entry_replaces_first:
  "mapBands HF_BANDS [goodEntry, poorEntry] Map.empty ''20m''
     = Some \<lparr>freq = Fin 14.5, sdbw = Fin (- 120), snr = Fin 2, reliability = Fin 30,
             status = POOR\<rparr>
   \<and> freq goodEntry = Fin 14.05"
  by (simp add: findBand_samples bandInfo_samples) (simp add: goodEntry_def)
section \<open>Properties of a run of the engine\<close>

lemma inputPath_not_dir [simp]: "inputPathOf ident \<noteq> TEMP_DIR"
  by (simp add: inputPathOf_def)

lemma outputPath_not_dir [simp]: "outputPathOf ident \<noteq> TEMP_DIR"
  by (simp add: outputPathOf_def)

lemma parseOutputFile_returns: "\<exists>res. parseOutputFile w p = Inr res"
  by (cases "readFileSync w p") (simp_all add: parseOutputFile_read parseOutputFile_unreadable)

text \<open>When the logging block returns, and when it throws.\<close>

lemma logOutputFile_present:
  assumes "p \<noteq> TEMP_DIR" and "files w p \<noteq> None"
  shows "logOutputFile w p =
    (if p \<in> read_fault w then Inl (Error (''EACCES: permission denied, open '' @ quoted p))
     else if p \<in> stat_fault w then Inl (Error (''EACCES: permission denied, stat '' @ quoted p))
     else Inr ())"
  using assms
  by (auto simp: logOutputFile_def existsSync_def readFileSync_def statSync_def)

lemma logOutputFile_absent:
  assumes "p \<noteq> TEMP_DIR" and "files w p = None"
  shows "logOutputFile w p = (case tmp_listing w of Inl err \<Rightarrow> Inl err | Inr names \<Rightarrow> Inr ())"
  using assms
  by (simp add: logOutputFile_def existsSync_def readdirSync_def Let_def split: sum.splits)

text \<open>The scratch directory is there, or can be made: the body of the \<open>try\<close> is entered.\<close>

lemma runPrediction_entered:
  assumes "temp_dir w \<or> TEMP_DIR \<notin> mkdir_fault e"
  shows "runPrediction e w p =
    (fst (runPrediction_try e (w\<lparr>draws := Suc (draws w), temp_dir := True\<rparr>)
            (inputPathOf (invocationId e w)) (outputPathOf (invocationId e w)) p),
     cleanup e
       (snd (runPrediction_try e (w\<lparr>draws := Suc (draws w), temp_dir := True\<rparr>)
            (inputPathOf (invocationId e w)) (outputPathOf (invocationId e w)) p))
       (inputPathOf (invocationId e w)) (outputPathOf (invocationId e w)))"
proof (cases "temp_dir w")
  case True
  then have eq: "w\<lparr>draws := Suc (draws w), temp_dir := True\<rparr> = w\<lparr>draws := Suc (draws w)\<rparr>"
    by (cases w) simp
  show ?thesis
    unfolding eq using True
    by (simp add: runPrediction_def Let_def existsSync_def invocationId_def)
next
  case False
  with assms show ?thesis
    by (simp add: runPrediction_def Let_def existsSync_def mkdirSync_def invocationId_def)
qed

text \<open>The directory is missing and cannot be made: the exception leaves before the \<open>try\<close>.\<close>

lemma runPrediction_mkdir_failed:
  assumes "\<not> temp_dir w" and "TEMP_DIR \<in> mkdir_fault e"
  shows "runPrediction e w p =
    (Inl (Error (''EACCES: permission denied, mkdir '' @ quoted TEMP_DIR)),
     w\<lparr>draws := Suc (draws w)\<rparr>)"
  using assms by (simp add: runPrediction_def Let_def existsSync_def mkdirSync_def)

lemma runPrediction_try_write_failed:
  assumes "inputPath \<in> write_fault e"
  shows "runPrediction_try e w inputPath outputPath p =
    (Inl (Error (''EACCES: permission denied, open '' @ quoted inputPath)), w)"
  using assms by (simp add: runPrediction_try_def Let_def writeFileSync_def)

lemma runPrediction_try_log_failed:
  assumes "inputPath \<notin> write_fault e"
    and "execSync e (ITURHFPROP_PATH e @ '' '' @ inputPath @ '' '' @ outputPath)
           (w\<lparr>files := (files w)(inputPath \<mapsto> generateInputFile (ITURHFPROP_DATA e) p)\<rparr>)
         = (outcome, w2)"
    and "logOutputFile w2 outputPath = Inl ex"
  shows "runPrediction_try e w inputPath outputPath p = (Inl ex, w2)"
  using assms
  by (simp add: runPrediction_try_def Let_def writeFileSync_def)

lemma runPrediction_try_ran:
  assumes "inputPath \<notin> write_fault e" and "logOutputFile w2 outputPath = Inr ()"
    and "execSync e (ITURHFPROP_PATH e @ '' '' @ inputPath @ '' '' @ outputPath)
           (w\<lparr>files := (files w)(inputPath \<mapsto> generateInputFile (ITURHFPROP_DATA e) p)\<rparr>)
         = (outcome, w2)"
    and "parseOutputFile w2 outputPath = Inr parsed"
  shows "runPrediction_try e w inputPath outputPath p =
    (Inr \<lparr>frequencies = frequencies parsed, raw = raw parsed, muf = muf parsed,
          error = error parsed,
          elapsed = clock w2 - clock w,
          execStdout = (case outcome of Inr so \<Rightarrow> so
                        | Inl execError \<Rightarrow> orDefault (stdout execError) []),
          execStderr = (case outcome of Inr so \<Rightarrow> []
                        | Inl execError \<Rightarrow> orDefault (stderr execError) []),
          inputContent = generateInputFile (ITURHFPROP_DATA e) p,
          echo = \<lparr>echo_txLat = txLat p, echo_txLon = txLon p, echo_rxLat = rxLat p,
                  echo_rxLon = rxLon p, echo_hour = hour p, echo_month = month p,
                  echo_ssn = ssn p\<rparr>\<rparr>, w2)"
  using assms
  by (simp add: runPrediction_try_def Let_def writeFileSync_def)

lemma snd_runPrediction_try:
  "snd (runPrediction_try e w inputPath outputPath p) =
     (if inputPath \<in> write_fault e then w
      else snd (execSync e (ITURHFPROP_PATH e @ '' '' @ inputPath @ '' '' @ outputPath)
                 (w\<lparr>files := (files w)(inputPath \<mapsto> generateInputFile (ITURHFPROP_DATA e) p)\<rparr>)))"
  by (simp add: runPrediction_try_def Let_def writeFileSync_def split: sum.splits)

lemma cleanup_removes:
  assumes "inputPath \<notin> unlink_fault e" and "outputPath \<notin> unlink_fault e"
    and "inputPath \<noteq> TEMP_DIR" and "outputPath \<noteq> TEMP_DIR"
  shows "files (cleanup e w inputPath outputPath) inputPath = None
       \<and> files (cleanup e w inputPath outputPath) outputPath = None"
  using assms by (auto simp: cleanup_def existsSync_def unlinkSync_def)

lemma cleanup_blocked:
  assumes "inputPath \<in> unlink_fault e" and "files w inputPath \<noteq> None"
    and "inputPath \<noteq> TEMP_DIR"
  shows "cleanup e w inputPath outputPath = w"
  using assms by (auto simp: cleanup_def existsSync_def unlinkSync_def)

lemma engineWorld_eq:
  "(w\<lparr>draws := Suc (draws w), temp_dir := True\<rparr>)
     \<lparr>files := (files (w\<lparr>draws := Suc (draws w), temp_dir := True\<rparr>))
        (inputPathOf (invocationId e w) \<mapsto> generateInputFile (ITURHFPROP_DATA e) p)\<rparr>
   = engineWorld e w p"
  by (simp add: engineWorld_def)

lemma tokenOf_0: "tokenOf 0 = ''0000000000000000''"
  by (simp add: tokenOf_def natDigits_small digitChar_def numeral_eq_Suc)

lemma tokenOf_1: "tokenOf (Suc 0) = ''0000000000000001''"
  by (simp add: tokenOf_def natDigits_small digitChar_def numeral_eq_Suc)

lemma reportPath_token: "outputPathOf (tokenOf 0) = reportPath"
  by (simp add: tokenOf_0 outputPathOf_def TEMP_DIR_def reportPath_def)

lemma input_not_report: "inputPathOf ident \<noteq> reportPath"
  by (simp add: inputPathOf_def TEMP_DIR_def reportPath_def)

lemma input_not_output: "inputPathOf a \<noteq> outputPathOf b"
  by (simp add: inputPathOf_def outputPathOf_def)

subsection \<open>Claim C4: a failing engine is not fatal\<close>

text \<open>
  What \<open>runPrediction\<close> gives after a failing engine. The exception of \<open>execSync\<close> is
  never passed on. When the logging block returns, the result is the parse of the output
  path in the world the engine left, with the standard output and standard error of the
  failed process. When a call of the logging block throws, that exception leaves
  \<open>runPrediction\<close> and the parser is not reached.
\<close>

lemma runPrediction_engine_failed:
  assumes "temp_dir w \<or> TEMP_DIR \<notin> mkdir_fault e"
    and "inputPathOf (invocationId e w) \<notin> write_fault e"
    and "execSync e (engineCommand e w) (engineWorld e w p) = (Inl execError, w2)"
    and "parseOutputFile w2 (outputPathOf (invocationId e w)) = Inr parsed"
  shows "fst (runPrediction e w p) =
    (case logOutputFile w2 (outputPathOf (invocationId e w)) of
       Inl ex \<Rightarrow> Inl ex
     | Inr u \<Rightarrow>
         Inr \<lparr>frequencies = frequencies parsed, raw = raw parsed, muf = muf parsed,
              error = error parsed,
              elapsed = clock w2 - clock w,
              execStdout = orDefault (stdout execError) [],
              execStderr = orDefault (stderr execError) [],
              inputContent = generateInputFile (ITURHFPROP_DATA e) p,
              echo = \<lparr>echo_txLat = txLat p, echo_txLon = txLon p, echo_rxLat = rxLat p,
                      echo_rxLon = rxLon p, echo_hour = hour p, echo_month = month p,
                      echo_ssn = ssn p\<rparr>\<rparr>)"
proof -
  have run: "execSync e
          (ITURHFPROP_PATH e @ '' '' @ inputPathOf (invocationId e w) @ '' ''
             @ outputPathOf (invocationId e w))
          ((w\<lparr>draws := Suc (draws w), temp_dir := True\<rparr>)
             \<lparr>files := (files (w\<lparr>draws := Suc (draws w), temp_dir := True\<rparr>))
                (inputPathOf (invocationId e w) \<mapsto> generateInputFile (ITURHFPROP_DATA e) p)\<rparr>)
        = (Inl execError, w2)"
    using assms(3) by (simp only: engineWorld_eq engineCommand_def)
  show ?thesis
  proof (cases "logOutputFile w2 (outputPathOf (invocationId e w))")
    case (Inl ex)
    from runPrediction_try_log_failed [OF assms(2) run Inl] Inl show ?thesis
      by (simp add: runPrediction_entered [OF assms(1)])
  next
    case (Inr u)
    then have "logOutputFile w2 (outputPathOf (invocationId e w)) = Inr ()"
      by simp
    from runPrediction_try_ran [OF assms(2) this run assms(4)] Inr show ?thesis
      by (simp add: runPrediction_entered [OF assms(1)])
  qed
qed

text \<open>
  C4. When the engine process exits with a non-zero status, \<open>runPrediction\<close> is to go on
  to the report and return the parsed result with the captured standard output and
  standard error rather than throw. The code does not pass on the exception of
  \<open>execSync\<close>, but the logging block behind it is inside no \<open>catch\<close>. After an engine
  that fails having written a report that cannot be read, the read of the logging block
  throws and \<open>runPrediction\<close> throws with it, although the parser, which reads the same
  file inside its own \<open>try\<close>, returns an empty frequency list with the error for that
  world. After an engine that fails without a report, \<open>runPrediction\<close> throws when
  \<open>/tmp\<close> cannot be listed.
\<close>

theorem engine_failure_log_block_throws:
  "fst (runPrediction (envWith unreadableEngine {} {}) emptyWorld sampleParams)
     = Inl (Error (''EACCES: permission denied, open '' @ quoted reportPath))
   \<and> parseOutputFile
        (snd (unreadableEngine (engineCommand (envWith unreadableEngine {} {}) emptyWorld)
               (engineWorld (envWith unreadableEngine {} {}) emptyWorld sampleParams)))
        reportPath
     = Inr \<lparr>frequencies = [], raw = None, muf = None,
            error = Some (''EACCES: permission denied, open '' @ quoted reportPath)\<rparr>
   \<and> fst (runPrediction (envWith silentEngine {} {}) closedTmpWorld sampleParams)
     = Inl (Error (''EACCES: permission denied, scandir '' @ quoted ''/tmp''))"
proof (intro conjI)
  let ?e = "envWith unreadableEngine {} {}"
  define w2 where "w2 = snd (unreadableEngine (engineCommand ?e emptyWorld)
    (engineWorld ?e emptyWorld sampleParams))"
  have ident: "invocationId ?e emptyWorld = tokenOf 0"
    by (simp add: invocationId_def envWith_def emptyWorld_def)
  have mk: "temp_dir emptyWorld \<or> TEMP_DIR \<notin> mkdir_fault ?e"
    and wr: "inputPathOf (invocationId ?e emptyWorld) \<notin> write_fault ?e"
    by (simp_all add: envWith_def)
  have run: "execSync ?e (engineCommand ?e emptyWorld) (engineWorld ?e emptyWorld sampleParams)
      = (Inl \<lparr>exitStatus = Some 1, stdout = Some ''partial'', stderr = Some ''engine failed''\<rparr>, w2)"
    by (simp add: envWith_def unreadableEngine_def w2_def)
  have there: "files w2 reportPath \<noteq> None" and locked: "reportPath \<in> read_fault w2"
    by (simp_all add: w2_def unreadableEngine_def)
  have dir: "reportPath \<noteq> TEMP_DIR"
    by (simp add: reportPath_def TEMP_DIR_def)
  have "readFileSync w2 reportPath = Inl (Error (''EACCES: permission denied, open '' @ quoted reportPath))"
    using there locked by (auto simp: readFileSync_def)
  from parseOutputFile_unreadable [OF this]
  have parsed: "parseOutputFile w2 reportPath
     = Inr \<lparr>frequencies = [], raw = None, muf = None,
            error = Some (''EACCES: permission denied, open '' @ quoted reportPath)\<rparr>"
    by simp
  have log: "logOutputFile w2 reportPath
      = Inl (Error (''EACCES: permission denied, open '' @ quoted reportPath))"
    using locked by (simp add: logOutputFile_present [OF dir there])
  from runPrediction_engine_failed [OF mk wr run] parsed log
  show "fst (runPrediction ?e emptyWorld sampleParams)
     = Inl (Error (''EACCES: permission denied, open '' @ quoted reportPath))"
    by (simp add: ident reportPath_token)
  from parsed show "parseOutputFile
        (snd (unreadableEngine (engineCommand ?e emptyWorld)
               (engineWorld ?e emptyWorld sampleParams)))
        reportPath
     = Inr \<lparr>frequencies = [], raw = None, muf = None,
            error = Some (''EACCES: permission denied, open '' @ quoted reportPath)\<rparr>"
    by (simp add: w2_def)
next
  let ?e = "envWith silentEngine {} {}"
  let ?w2 = "engineWorld ?e closedTmpWorld sampleParams"
  have ident: "invocationId ?e closedTmpWorld = tokenOf 0"
    by (simp add: invocationId_def envWith_def closedTmpWorld_def emptyWorld_def)
  have mk: "temp_dir closedTmpWorld \<or> TEMP_DIR \<notin> mkdir_fault ?e"
    and wr: "inputPathOf (invocationId ?e closedTmpWorld) \<notin> write_fault ?e"
    by (simp_all add: envWith_def)
  have run: "execSync ?e (engineCommand ?e closedTmpWorld) ?w2
      = (Inl \<lparr>exitStatus = Some 127, stdout = Some [], stderr = Some ''not found''\<rparr>, ?w2)"
    by (simp add: envWith_def silentEngine_def)
  have gone: "files ?w2 (outputPathOf (tokenOf 0)) = None"
    by (simp add: engineWorld_def ident input_not_output input_not_output [symmetric])
       (simp add: closedTmpWorld_def emptyWorld_def)
  have listing: "tmp_listing ?w2 = Inl (Error (''EACCES: permission denied, scandir '' @ quoted ''/tmp''))"
    by (simp add: engineWorld_def closedTmpWorld_def)
  have log: "logOutputFile ?w2 (outputPathOf (tokenOf 0))
      = Inl (Error (''EACCES: permission denied, scandir '' @ quoted ''/tmp''))"
    by (simp add: logOutputFile_absent [OF outputPath_not_dir gone] listing)
  obtain parsed where parsed: "parseOutputFile ?w2 (outputPathOf (invocationId ?e closedTmpWorld)) = Inr parsed"
    using parseOutputFile_returns by blast
  from runPrediction_engine_failed [OF mk wr run parsed] log
  show "fst (runPrediction ?e closedTmpWorld sampleParams)
     = Inl (Error (''EACCES: permission denied, scandir '' @ quoted ''/tmp''))"
    by (simp add: ident)
qed

subsection \<open>Claim C5: the scratch files after a run\<close>

text \<open>
  C5, as the code has it. The cleanup runs on every way out of the body of the \<open>try\<close>:
  a result, a failing or timed-out engine, or an exception. When neither \<open>unlinkSync\<close>
  call fails, the input and output files of the invocation's id do not exist after the
  call, whatever the engine did and whether the call returned or threw. (When the
  scratch directory is missing and cannot be made, the exception leaves before the \<open>try\<close>
  and no file of that id exists either, as none exists without the directory.) An
  exception of the cleanup itself is caught and ignored, so the guarantee is lost when an
  \<open>unlinkSync\<close> fails.
\<close>

theorem scratch_files_removed:
  assumes "inputPathOf (invocationId e w) \<notin> unlink_fault e"
    and "outputPathOf (invocationId e w) \<notin> unlink_fault e"
    and "temp_dir w \<or> (files w (inputPathOf (invocationId e w)) = None
                        \<and> files w (outputPathOf (invocationId e w)) = None)"
  shows "files (snd (runPrediction e w p)) (inputPathOf (invocationId e w)) = None
       \<and> files (snd (runPrediction e w p)) (outputPathOf (invocationId e w)) = None"
proof (cases "temp_dir w \<or> TEMP_DIR \<notin> mkdir_fault e")
  case True
  show ?thesis
    using cleanup_removes [OF assms(1,2) inputPath_not_dir outputPath_not_dir]
    by (simp add: runPrediction_entered [OF True])
next
  case False
  then have "\<not> temp_dir w" and "TEMP_DIR \<in> mkdir_fault e"
    by simp_all
  with assms(3) show ?thesis
    by (simp add: runPrediction_mkdir_failed)
qed

theorem scratch_files_removed_witness:
  "inputPathOf (invocationId (envWith failingEngine {} {}) emptyWorld)
      \<notin> unlink_fault (envWith failingEngine {} {})
   \<and> files (snd (runPrediction (envWith failingEngine {} {}) emptyWorld sampleParams))
       (inputPathOf (tokenOf 0)) = None
   \<and> files (snd (runPrediction (envWith failingEngine {} {}) emptyWorld sampleParams))
       reportPath = None"
proof -
  let ?e = "envWith failingEngine {} {}"
  have ident: "invocationId ?e emptyWorld = tokenOf 0"
    by (simp add: invocationId_def envWith_def emptyWorld_def)
  have "inputPathOf (invocationId ?e emptyWorld) \<notin> unlink_fault ?e"
    and "outputPathOf (invocationId ?e emptyWorld) \<notin> unlink_fault ?e"
    and "temp_dir emptyWorld \<or> (files emptyWorld (inputPathOf (invocationId ?e emptyWorld)) = None
                        \<and> files emptyWorld (outputPathOf (invocationId ?e emptyWorld)) = None)"
    by (simp_all add: envWith_def emptyWorld_def)
  from scratch_files_removed [OF this, of sampleParams] show ?thesis
    by (simp add: ident reportPath_token) (simp add: envWith_def)
qed

text \<open>
  The claim as written holds the files gone on every exit path. When unlinking the input
  file fails, the exception is swallowed, the output file is not tried, and both files
  are still there after the call.
\<close>

theorem failed_unlink_leaves_files:
  "files (snd (runPrediction (envWith writingEngine {} {inputPathOf (tokenOf 0)}) emptyWorld
                 sampleParams)) (inputPathOf (tokenOf 0))
     = Some (generateInputFile ''/opt/iturhfprop'' sampleParams)
   \<and> files (snd (runPrediction (envWith writingEngine {} {inputPathOf (tokenOf 0)}) emptyWorld
                 sampleParams)) (outputPathOf (tokenOf 0))
     = Some (str_join [newline] sampleLines)"
proof -
  let ?e = "envWith writingEngine {} {inputPathOf (tokenOf 0)}"
  let ?w1 = "emptyWorld\<lparr>draws := Suc (draws emptyWorld), temp_dir := True\<rparr>"
  define w2 where "w2 = snd (writingEngine []
     (?w1\<lparr>files := (files ?w1)(inputPathOf (tokenOf 0) \<mapsto> generateInputFile ''/opt/iturhfprop'' sampleParams)\<rparr>))"
  have ident: "invocationId ?e emptyWorld = tokenOf 0"
    by (simp add: invocationId_def envWith_def emptyWorld_def)
  have mk: "temp_dir emptyWorld \<or> TEMP_DIR \<notin> mkdir_fault ?e"
    by (simp add: envWith_def)
  have after: "snd (runPrediction_try ?e ?w1 (inputPathOf (tokenOf 0)) (outputPathOf (tokenOf 0))
      sampleParams) = w2"
    by (simp add: snd_runPrediction_try w2_def) (simp add: envWith_def writingEngine_def)
  have "files w2 (inputPathOf (tokenOf 0)) = Some (generateInputFile ''/opt/iturhfprop'' sampleParams)"
    and out: "files w2 reportPath = Some (str_join [newline] sampleLines)"
    by (simp_all add: w2_def writingEngine_def input_not_report)
  moreover from this(1) have "cleanup ?e w2 (inputPathOf (tokenOf 0)) (outputPathOf (tokenOf 0)) = w2"
    by (intro cleanup_blocked) (simp_all add: envWith_def)
  ultimately show ?thesis
    by (simp add: runPrediction_entered [OF mk] ident reportPath_token
        after [unfolded reportPath_token])
qed

subsection \<open>Claim C6: the hourly batch\<close>

lemma entryHour_hourlyStep: "entryHour (fst (hourlyStep e baseParams h w)) = h"
  by (simp add: hourlyStep_def split: prod.splits sum.splits)

lemma fst_hourlyStep:
  "fst (hourlyStep e baseParams h w) =
     (case fst (runPrediction e w (baseParams\<lparr>hour := JInt (int h)\<rparr>)) of
        Inr result \<Rightarrow> HourResult h (muf result) (frequencies result)
      | Inl err \<Rightarrow> HourError h (message err))"
  by (simp add: hourlyStep_def split: prod.splits sum.splits)

lemma hourlyLoop_unrolled:
  "h \<le> 24 \<Longrightarrow>
   hourlyLoop e baseParams h acc (worldAt e baseParams w h) =
     (acc @ map (\<lambda>k. fst (hourlyStep e baseParams k (worldAt e baseParams w k))) [h..<24],
      worldAt e baseParams w 24)"
proof (induction "24 - h" arbitrary: h acc)
  case 0
  then have "h = 24" by simp
  then show ?case
    by (simp add: hourlyLoop.simps)
next
  case (Suc n)
  then have less: "h < 24" and "n = 24 - Suc h" and "Suc h \<le> 24"
    by simp_all
  from Suc.hyps(1) [OF this(2,3)]
  have "hourlyLoop e baseParams (Suc h)
          (acc @ [fst (hourlyStep e baseParams h (worldAt e baseParams w h))])
          (worldAt e baseParams w (Suc h)) =
     ((acc @ [fst (hourlyStep e baseParams h (worldAt e baseParams w h))])
        @ map (\<lambda>k. fst (hourlyStep e baseParams k (worldAt e baseParams w k))) [Suc h..<24],
      worldAt e baseParams w 24)" .
  with less show ?case
    by (subst hourlyLoop.simps) (simp add: upt_conv_Cons)
qed

lemma hourlyBatch_entries:
  "fst (hourlyBatch e baseParams w)
     = map (\<lambda>k. fst (hourlyStep e baseParams k (worldAt e baseParams w k))) [0..<24]"
  using hourlyLoop_unrolled [of 0 e baseParams "[]" w] by (simp add: hourlyBatch_def)

lemma hourlyBatch_nth:
  "h < 24 \<Longrightarrow>
   fst (hourlyBatch e baseParams w) ! h = fst (hourlyStep e baseParams h (worldAt e baseParams w h))"
  unfolding hourlyBatch_entries by (subst nth_map_upt) simp_all

text \<open>
  C6. For every base request the batch returns exactly 24 entries, the entry at position
  \<open>h\<close> being the one of hour \<open>h\<close>, in ascending order. The entry of an hour is the MUF and
  the frequency list of that hour's prediction when it returned, and the error marker
  with the message of the exception when it threw; it depends on that hour's run only,
  which starts in the world the hour before left, so a failure in one hour neither ends
  the loop nor changes what the other hours put into the list.
\<close>

theorem hourly_batch_entries:
  "length (fst (hourlyBatch e baseParams w)) = 24
   \<and> map entryHour (fst (hourlyBatch e baseParams w)) = [0..<24]
   \<and> (\<forall>h<24. fst (hourlyBatch e baseParams w) ! h =
         (case fst (runPrediction e (worldAt e baseParams w h) (baseParams\<lparr>hour := JInt (int h)\<rparr>)) of
            Inr result \<Rightarrow> HourResult h (muf result) (frequencies result)
          | Inl err \<Rightarrow> HourError h (message err)))"
proof (intro conjI allI impI)
  show "length (fst (hourlyBatch e baseParams w)) = 24"
    by (simp add: hourlyBatch_entries)
  show "map entryHour (fst (hourlyBatch e baseParams w)) = [0..<24]"
    by (simp add: hourlyBatch_entries entryHour_hourlyStep comp_def map_idI)
  fix h :: nat
  assume "h < 24"
  then show "fst (hourlyBatch e baseParams w) ! h =
         (case fst (runPrediction e (worldAt e baseParams w h) (baseParams\<lparr>hour := JInt (int h)\<rparr>)) of
            Inr result \<Rightarrow> HourResult h (muf result) (frequencies result)
          | Inl err \<Rightarrow> HourError h (message err))"
    by (simp add: hourlyBatch_nth fst_hourlyStep)
qed

text \<open>An hour whose input file cannot be written, followed by an hour that runs.\<close>

lemma first_hour_fails:
  "runPrediction (envWith idleEngine {inputPathOf (tokenOf 0)} {}) emptyWorld p
     = (Inl (Error (''EACCES: permission denied, open '' @ quoted (inputPathOf (tokenOf 0)))),
        emptyWorld\<lparr>draws := Suc 0, temp_dir := True\<rparr>)"
proof -
  let ?e = "envWith idleEngine {inputPathOf (tokenOf 0)} {}"
  have mk: "temp_dir emptyWorld \<or> TEMP_DIR \<notin> mkdir_fault ?e"
    by (simp add: envWith_def)
  have ident: "invocationId ?e emptyWorld = tokenOf 0"
    by (simp add: invocationId_def envWith_def emptyWorld_def)
  have "inputPathOf (tokenOf 0) \<in> write_fault ?e"
    by (simp add: envWith_def)
  note failed = runPrediction_try_write_failed [OF this]
  show ?thesis
    by (simp add: runPrediction_entered [OF mk] ident failed)
       (simp add: cleanup_def existsSync_def emptyWorld_def)
qed

lemma second_hour_runs:
  "\<exists>result. fst (runPrediction (envWith idleEngine {inputPathOf (tokenOf 0)} {})
                   (emptyWorld\<lparr>draws := Suc 0, temp_dir := True\<rparr>) p) = Inr result
     \<and> muf result = None \<and> frequencies result = []"
proof -
  let ?e = "envWith idleEngine {inputPathOf (tokenOf 0)} {}"
  let ?w = "emptyWorld\<lparr>draws := Suc 0, temp_dir := True\<rparr>"
  let ?w1 = "?w\<lparr>draws := Suc (draws ?w), temp_dir := True\<rparr>"
  let ?w2 = "?w1\<lparr>files := (files ?w1)(inputPathOf (tokenOf (Suc 0)) \<mapsto> generateInputFile (ITURHFPROP_DATA ?e) p)\<rparr>"
  have mk: "temp_dir ?w \<or> TEMP_DIR \<notin> mkdir_fault ?e"
    by simp
  have ident: "invocationId ?e ?w = tokenOf (Suc 0)"
    by (simp add: invocationId_def envWith_def)
  have wr: "inputPathOf (tokenOf (Suc 0)) \<notin> write_fault ?e"
    by (simp add: envWith_def inputPathOf_def tokenOf_0 tokenOf_1)
  have run: "execSync ?e (ITURHFPROP_PATH ?e @ '' '' @ inputPathOf (tokenOf (Suc 0)) @ '' ''
                @ outputPathOf (tokenOf (Suc 0))) ?w2 = (Inr [], ?w2)"
    by (simp add: envWith_def idleEngine_def)
  have "readFileSync ?w2 (outputPathOf (tokenOf (Suc 0)))
      = Inl (Error (''ENOENT: no such file or directory, open '' @ quoted (outputPathOf (tokenOf (Suc 0)))))"
    using input_not_output [of "tokenOf (Suc 0)" "tokenOf (Suc 0)"]
    by (simp add: readFileSync_def emptyWorld_def)
  note parsed = parseOutputFile_unreadable [OF this]
  have "files ?w2 (outputPathOf (tokenOf (Suc 0))) = None"
    using input_not_output [of "tokenOf (Suc 0)" "tokenOf (Suc 0)"]
    by (simp add: emptyWorld_def)
  then have log: "logOutputFile ?w2 (outputPathOf (tokenOf (Suc 0))) = Inr ()"
    by (simp add: logOutputFile_absent emptyWorld_def)
  from runPrediction_try_ran [OF wr log run parsed]
  show ?thesis
    by (simp add: runPrediction_entered [OF mk] ident)
qed

theorem hourly_batch_entries_witness:
  "length (fst (hourlyBatch (envWith idleEngine {inputPathOf (tokenOf 0)} {}) sampleParams emptyWorld))
     = 24
   \<and> fst (hourlyBatch (envWith idleEngine {inputPathOf (tokenOf 0)} {}) sampleParams emptyWorld) ! 0
       = HourError 0 (''EACCES: permission denied, open '' @ quoted (inputPathOf (tokenOf 0)))
   \<and> fst (hourlyBatch (envWith idleEngine {inputPathOf (tokenOf 0)} {}) sampleParams emptyWorld) ! 1
       = HourResult 1 None []"
proof -
  let ?e = "envWith idleEngine {inputPathOf (tokenOf 0)} {}"
  note c6 = hourly_batch_entries [of ?e sampleParams emptyWorld]
  have w1: "worldAt ?e sampleParams emptyWorld 1 = emptyWorld\<lparr>draws := Suc 0, temp_dir := True\<rparr>"
    by (simp add: hourlyStep_def first_hour_fails)
  obtain result where "fst (runPrediction ?e (emptyWorld\<lparr>draws := Suc 0, temp_dir := True\<rparr>)
      (sampleParams\<lparr>hour := JInt (int (Suc 0))\<rparr>)) = Inr result" "muf result = None" "frequencies result = []"
    using second_hour_runs by blast
  with c6 w1 have "fst (hourlyBatch ?e sampleParams emptyWorld) ! 1 = HourResult 1 None []"
    by simp
  moreover from c6 have "fst (hourlyBatch ?e sampleParams emptyWorld) ! 0
       = HourError 0 (''EACCES: permission denied, open '' @ quoted (inputPathOf (tokenOf 0)))"
    by (simp add: first_hour_fails)
  moreover from c6 have "length (fst (hourlyBatch ?e sampleParams emptyWorld)) = 24"
    by simp
  ultimately show ?thesis by blast
qed

end
